theory Spec2Isabelle
  imports Main "HOL-Library.AList"
begin

section \<open>The Bunny DNS API client of octodns-bunny\<close>

text \<open>
  A shallow embedding of \<^verbatim>\<open>src/octodns_bunny/__init__.py\<close> (class \<^verbatim>\<open>BunnyClient\<close>).
  The client keeps one piece of state, the dictionary \<^verbatim>\<open>self._zones\<close>; everything else
  it does is an HTTP exchange with the provider. Both are made explicit: every method takes
  a world (the dictionary, the requests sent so far, the provider's state) and returns its
  result together with the new world. An exception is a value \<open>Inl e\<close>. The provider is a
  parameter \<open>serve\<close>: any function from its state and a request to a response and its next
  state.
\<close>

subsection \<open>JSON values and the Python operations used on them\<close>

text \<open>
  Decoded JSON. Numbers are integers (the identifiers, page numbers and type codes of this
  API); floating-point numbers are left out. A JSON object is a Python \<^verbatim>\<open>dict\<close> with
  string keys, kept as an association list in insertion order.
\<close>

datatype json =
    JNull
  | JBool bool
  | JInt int
  | JStr string
  | JList "json list"
  | JObj "(string \<times> json) list"

text \<open>The exceptions that can leave a method of the client.\<close>

datatype error =
    BunnyClientException string "json option"
      \<comment> \<open>the message, and the value an f-string appends to it, if any\<close>
  | BunnyClientNotFound
  | BunnyClientUnauthorized
  | HTTPError int
      \<comment> \<open>\<^verbatim>\<open>requests.exceptions.HTTPError\<close>, raised by \<^verbatim>\<open>raise_for_status\<close>\<close>
  | ConnectionError
      \<comment> \<open>the HTTP session raised instead of returning a response\<close>
  | JSONDecodeError
  | KeyError
  | TypeError

text \<open>
  \<^verbatim>\<open>BunnyClientNotFound\<close> and \<^verbatim>\<open>BunnyClientUnauthorized\<close> are subclasses of
  \<^verbatim>\<open>BunnyClientException\<close>; the other exceptions are not.
\<close>

fun is_BunnyClientException :: "error \<Rightarrow> bool" where
  "is_BunnyClientException (BunnyClientException m v) = True"
| "is_BunnyClientException BunnyClientNotFound = True"
| "is_BunnyClientException BunnyClientUnauthorized = True"
| "is_BunnyClientException e = False"

text \<open>Python's truth value of an object (\<^verbatim>\<open>not x\<close> is its negation).\<close>

fun truthy :: "json \<Rightarrow> bool" where
  "truthy JNull = False"
| "truthy (JBool b) = b"
| "truthy (JInt i) = (i \<noteq> 0)"
| "truthy (JStr s) = (s \<noteq> [])"
| "truthy (JList xs) = (xs \<noteq> [])"
| "truthy (JObj kvs) = (kvs \<noteq> [])"

text \<open>Lists and dictionaries cannot be hashed: using one as a dictionary key raises.\<close>

fun hashable :: "json \<Rightarrow> bool" where
  "hashable (JList xs) = False"
| "hashable (JObj kvs) = False"
| "hashable j = True"

text \<open>
  Python's \<^verbatim>\<open>==\<close> on hashable values identifies \<^verbatim>\<open>True\<close> with \<^verbatim>\<open>1\<close> and
  \<^verbatim>\<open>False\<close> with \<^verbatim>\<open>0\<close>, and nothing else across types: \<open>py_key\<close> picks one
  representative, so two keys are the same dictionary key iff their representatives are equal.
\<close>

fun py_key :: "json \<Rightarrow> json" where
  "py_key (JBool b) = JInt (if b then 1 else 0)"
| "py_key j = j"

text \<open>\<^verbatim>\<open>x == True\<close>.\<close>

definition eq_True :: "json \<Rightarrow> bool" where
  "eq_True x = (py_key x = JInt 1)"

text \<open>\<^verbatim>\<open>x[k]\<close> for a string \<open>k\<close>: only a dictionary can be subscripted by a string.\<close>

fun getitem :: "json \<Rightarrow> string \<Rightarrow> error + json" where
  "getitem (JObj kvs) k = (case map_of kvs k of None \<Rightarrow> Inl KeyError | Some v \<Rightarrow> Inr v)"
| "getitem j k = Inl TypeError"

text \<open>
  What \<^verbatim>\<open>for z in x\<close> runs over: the elements of a list, the keys of a dictionary, the
  characters of a string; anything else is not iterable.
\<close>

fun py_iter :: "json \<Rightarrow> error + json list" where
  "py_iter (JList xs) = Inr xs"
| "py_iter (JObj kvs) = Inr (map (\<lambda>kv. JStr (fst kv)) kvs)"
| "py_iter (JStr s) = Inr (map (\<lambda>c. JStr [c]) s)"
| "py_iter j = Inl TypeError"

subsection \<open>The dictionary \<^verbatim>\<open>self._zones\<close>\<close>

text \<open>
  A Python dictionary keyed by whatever the provider sent as \<^verbatim>\<open>Domain\<close>, in insertion
  order (the order \<^verbatim>\<open>list(self._zones)\<close> returns). Storing under an existing key keeps
  the key's place and replaces the value.
\<close>

type_synonym zones_dict = "(json \<times> json) list"

fun dict_set :: "json \<Rightarrow> json \<Rightarrow> zones_dict \<Rightarrow> zones_dict" where
  "dict_set k v [] = [(k, v)]"
| "dict_set k v (p # ps) =
     (if py_key (fst p) = py_key k then (fst p, v) # ps else p # dict_set k v ps)"

definition dict_setitem :: "zones_dict \<Rightarrow> json \<Rightarrow> json \<Rightarrow> error + zones_dict" where
  "dict_setitem d k v = (if hashable k then Inr (dict_set k v d) else Inl TypeError)"

text \<open>\<^verbatim>\<open>d.get(k)\<close> for a hashable \<open>k\<close>: the value, or \<^verbatim>\<open>None\<close>.\<close>

fun dict_get :: "zones_dict \<Rightarrow> json \<Rightarrow> json" where
  "dict_get [] k = JNull"
| "dict_get (p # ps) k = (if py_key (fst p) = py_key k then snd p else dict_get ps k)"

subsection \<open>Requests, responses and the world\<close>

datatype http_method = GET | POST | PUT | DELETE

text \<open>
  The four path templates of the client, with the values their f-strings interpolate:
  \<^verbatim>\<open>/dnszone\<close>, \<^verbatim>\<open>/dnszone/{zone_id}\<close>, \<^verbatim>\<open>/dnszone/{zone_id}/records\<close> and
  \<^verbatim>\<open>/dnszone/{zone_id}/records/{record_id}\<close>.
\<close>

datatype path =
    Dnszone
  | Dnszone_id json
  | Dnszone_records json
  | Dnszone_record json json

record http_request =
  rq_method :: http_method
  rq_path :: path
  rq_params :: "(string \<times> int) list option"
  rq_data :: "json option"

text \<open>A response: its status code and its body, \<open>None\<close> when the body is not JSON.\<close>

record http_response =
  status_code :: int
  body :: "json option"

text \<open>
  The provider answers a request with a response, or with none (the session raises), and
  moves to its next state.
\<close>

type_synonym 'p provider = "'p \<Rightarrow> http_request \<Rightarrow> http_response option \<times> 'p"

record 'p world =
  self_zones :: zones_dict
  sent :: "http_request list"
  remote :: 'p

text \<open>\<^verbatim>\<open>BunnyClient.__init__\<close>: the dictionary starts empty.\<close>

definition init :: "'p \<Rightarrow> 'p world" where
  "init p = \<lparr>self_zones = [], sent = [], remote = p\<rparr>"

subsection \<open>\<^verbatim>\<open>_request\<close>\<close>

text \<open>
  \<^verbatim>\<open>Response.raise_for_status\<close> of the requests library raises \<^verbatim>\<open>HTTPError\<close> for a
  status from 400 to 599, and nothing otherwise.
\<close>

definition raise_for_status :: "int \<Rightarrow> error option" where
  "raise_for_status s = (if 400 \<le> s \<and> s < 600 then Some (HTTPError s) else None)"

definition request ::
  "'p provider \<Rightarrow> http_method \<Rightarrow> path \<Rightarrow> (string \<times> int) list option \<Rightarrow> json option \<Rightarrow>
   'p world \<Rightarrow> (error + http_response) \<times> 'p world" where
  "request serve m p params data w =
     (let rq = \<lparr>rq_method = m, rq_path = p, rq_params = params, rq_data = data\<rparr>;
          w1 = w\<lparr>sent := sent w @ [rq], remote := snd (serve (remote w) rq)\<rparr>
      in case fst (serve (remote w) rq) of
           None \<Rightarrow> (Inl ConnectionError, w1)
         | Some r \<Rightarrow>
             if status_code r = 401 then (Inl BunnyClientUnauthorized, w1)
             else if status_code r = 404 then (Inl BunnyClientNotFound, w1)
             else (case raise_for_status (status_code r) of
                     Some e \<Rightarrow> (Inl e, w1)
                   | None \<Rightarrow> (Inr r, w1)))"

text \<open>\<^verbatim>\<open>Response.json()\<close>.\<close>

definition response_json :: "http_response \<Rightarrow> error + json" where
  "response_json r = (case body r of None \<Rightarrow> Inl JSONDecodeError | Some j \<Rightarrow> Inr j)"

subsection \<open>\<^verbatim>\<open>_cache_zones\<close>\<close>

text \<open>
  The inner loop, \<^verbatim>\<open>for z in r['Items']: self._zones[z['Domain']] = z['Id']\<close>, over the
  items already taken from the iterator. An item that raises leaves the entries stored
  before it in the dictionary.
\<close>

fun store_zones :: "json list \<Rightarrow> zones_dict \<Rightarrow> (error + unit) \<times> zones_dict" where
  "store_zones [] d = (Inr (), d)"
| "store_zones (z # zs) d =
     (case getitem z ''Id'' of
        Inl e \<Rightarrow> (Inl e, d)
      | Inr i \<Rightarrow>
          (case getitem z ''Domain'' of
             Inl e \<Rightarrow> (Inl e, d)
           | Inr k \<Rightarrow>
               (case dict_setitem d k i of
                  Inl e \<Rightarrow> (Inl e, d)
                | Inr d' \<Rightarrow> store_zones zs d')))"

text \<open>
  One pass of the \<^verbatim>\<open>while True\<close> loop on the decoded page \<open>r\<close>: the inner loop, then the
  test \<^verbatim>\<open>not r['HasMoreItems'] == True\<close>. The result \<open>Inr True\<close> is "go on with the next page",
  \<open>Inr False\<close> is \<^verbatim>\<open>break\<close>.
\<close>

definition cache_page :: "json \<Rightarrow> zones_dict \<Rightarrow> (error + bool) \<times> zones_dict" where
  "cache_page r d =
     (case getitem r ''Items'' of
        Inl e \<Rightarrow> (Inl e, d)
      | Inr items \<Rightarrow>
          (case py_iter items of
             Inl e \<Rightarrow> (Inl e, d)
           | Inr zs \<Rightarrow>
               (case store_zones zs d of
                  (Inl e, d') \<Rightarrow> (Inl e, d')
                | (Inr u, d') \<Rightarrow>
                    (case getitem r ''HasMoreItems'' of
                       Inl e \<Rightarrow> (Inl e, d')
                     | Inr h \<Rightarrow> (Inr (eq_True h), d')))))"

text \<open>
  The loop itself, from page \<open>page\<close> on. Nothing bounds the number of pages: against a
  provider that always answers \<^verbatim>\<open>HasMoreItems: true\<close> the loop does not return, which is
  the value \<open>None\<close>.
\<close>

partial_function (option) cache_zones_loop ::
  "'p provider \<Rightarrow> int \<Rightarrow> 'p world \<Rightarrow> ((error + unit) \<times> 'p world) option" where
  "cache_zones_loop serve page w =
     (case request serve GET Dnszone (Some [(''page'', page)]) None w of
        (Inl e, w1) \<Rightarrow> Some (Inl e, w1)
      | (Inr resp, w1) \<Rightarrow>
          (case response_json resp of
             Inl e \<Rightarrow> Some (Inl e, w1)
           | Inr r \<Rightarrow>
               (case cache_page r (self_zones w1) of
                  (Inl e, d) \<Rightarrow> Some (Inl e, w1\<lparr>self_zones := d\<rparr>)
                | (Inr again, d) \<Rightarrow>
                    if \<not> again then Some (Inr (), w1\<lparr>self_zones := d\<rparr>)
                    else cache_zones_loop serve (page + 1) (w1\<lparr>self_zones := d\<rparr>))))"

declare cache_zones_loop.simps [code]

definition cache_zones :: "'p provider \<Rightarrow> 'p world \<Rightarrow> ((error + unit) \<times> 'p world) option" where
  "cache_zones serve w = cache_zones_loop serve 1 w"

subsection \<open>\<^verbatim>\<open>_get_zone_id\<close>, \<^verbatim>\<open>_update_zones_cache\<close>, \<^verbatim>\<open>clear_zones_cache\<close>\<close>

definition get_zone_id ::
  "'p provider \<Rightarrow> string \<Rightarrow> 'p world \<Rightarrow> ((error + json) \<times> 'p world) option" where
  "get_zone_id serve zone_name w =
     (case (if self_zones w = [] then cache_zones serve w else Some (Inr (), w)) of
        None \<Rightarrow> None
      | Some (Inl e, w1) \<Rightarrow> Some (Inl e, w1)
      | Some (Inr u, w1) \<Rightarrow>
          (let zone_id = dict_get (self_zones w1) (JStr zone_name)
           in if \<not> truthy zone_id then Some (Inl BunnyClientNotFound, w1)
              else Some (Inr zone_id, w1)))"

definition update_zones_cache :: "string \<Rightarrow> json \<Rightarrow> 'p world \<Rightarrow> 'p world" where
  "update_zones_cache zone_name zone_id w =
     w\<lparr>self_zones := dict_set (JStr zone_name) zone_id (self_zones w)\<rparr>"

definition clear_zones_cache :: "'p world \<Rightarrow> 'p world" where
  "clear_zones_cache w = w\<lparr>self_zones := []\<rparr>"

subsection \<open>\<^verbatim>\<open>_handle_record_data\<close>\<close>

definition RECORD_TYPES :: "(string \<times> int) list" where
  "RECORD_TYPES =
     [(''A'', 0), (''AAAA'', 1), (''CNAME'', 2), (''TXT'', 3), (''MX'', 4),
      (''SRV'', 8), (''CAA'', 9), (''PTR'', 10), (''NS'', 12)]"

text \<open>
  The caller's payload: a dictionary with string keys. \<open>payload_get\<close> is
  \<^verbatim>\<open>record_data.get(k)\<close>, which is \<^verbatim>\<open>None\<close> for a missing key.
\<close>

type_synonym payload = "(string \<times> json) list"

definition payload_get :: "payload \<Rightarrow> string \<Rightarrow> json" where
  "payload_get record_data k = (case map_of record_data k of None \<Rightarrow> JNull | Some v \<Rightarrow> v)"

text \<open>\<^verbatim>\<open>self.RECORD_TYPES.get(raw_type)\<close> for a hashable \<open>raw_type\<close>: only a string can be a key.\<close>

fun record_types_get :: "json \<Rightarrow> int option" where
  "record_types_get (JStr s) = map_of RECORD_TYPES s"
| "record_types_get j = None"

text \<open>
  The method changes the dictionary it is given and returns that same dictionary; every
  \<^verbatim>\<open>raise\<close> comes before the first change. So the result \<open>Inr d\<close> is both the value
  returned and the new content of the caller's dictionary, and \<open>Inl e\<close> leaves the caller's
  dictionary as it was.
\<close>

definition handle_record_data :: "payload \<Rightarrow> bool \<Rightarrow> error + payload" where
  "handle_record_data record_data update =
     (let raw_type = payload_get record_data ''Type''
      in if update then
           if payload_get record_data ''Name'' \<noteq> JNull then
             Inl (BunnyClientException ''Existing record name can'be updated.'' None)
           else if raw_type \<noteq> JNull then
             Inl (BunnyClientException ''Existing record type can'be updated.'' None)
           else Inr (AList.delete ''Type'' (AList.delete ''Name'' record_data))
         else
           if \<not> truthy raw_type then
             Inl (BunnyClientException ''No resource record type specified.'' None)
           else if \<not> hashable raw_type then Inl TypeError
           else (case record_types_get raw_type of
                   None \<Rightarrow>
                     Inl (BunnyClientException ''Unsupported resource record type: ''
                            (Some raw_type))
                 | Some type \<Rightarrow> Inr (AList.update ''Type'' (JInt type) record_data)))"

subsection \<open>The public methods\<close>

definition zones :: "'p provider \<Rightarrow> 'p world \<Rightarrow> ((error + json list) \<times> 'p world) option" where
  "zones serve w =
     (case (if self_zones w = [] then cache_zones serve w else Some (Inr (), w)) of
        None \<Rightarrow> None
      | Some (Inl e, w1) \<Rightarrow> Some (Inl e, w1)
      | Some (Inr u, w1) \<Rightarrow> Some (Inr (map fst (self_zones w1)), w1))"

definition zone ::
  "'p provider \<Rightarrow> string \<Rightarrow> 'p world \<Rightarrow> ((error + json) \<times> 'p world) option" where
  "zone serve zone_name w =
     (case get_zone_id serve zone_name w of
        None \<Rightarrow> None
      | Some (Inl e, w1) \<Rightarrow> Some (Inl e, w1)
      | Some (Inr zone_id, w1) \<Rightarrow>
          (case request serve GET (Dnszone_id zone_id) None None w1 of
             (Inl e, w2) \<Rightarrow> Some (Inl e, w2)
           | (Inr r, w2) \<Rightarrow> Some (response_json r, w2)))"

definition zone_create :: "'p provider \<Rightarrow> string \<Rightarrow> 'p world \<Rightarrow> (error + json) \<times> 'p world" where
  "zone_create serve zone_name w =
     (case request serve POST Dnszone None (Some (JObj [(''Domain'', JStr zone_name)])) w of
        (Inl e, w1) \<Rightarrow> (Inl e, w1)
      | (Inr resp, w1) \<Rightarrow>
          (case response_json resp of
             Inl e \<Rightarrow> (Inl e, w1)
           | Inr r \<Rightarrow>
               (case getitem r ''Id'' of
                  Inl e \<Rightarrow> (Inl e, w1)
                | Inr zone_id \<Rightarrow> (Inr r, update_zones_cache zone_name zone_id w1))))"

text \<open>
  The two methods that take a payload also return what the caller's dictionary holds when
  the method is left, normally or by an exception: the second component of the result.
\<close>

definition record_create ::
  "'p provider \<Rightarrow> string \<Rightarrow> payload \<Rightarrow> 'p world \<Rightarrow>
   ((error + json) \<times> payload \<times> 'p world) option" where
  "record_create serve zone_name record_data w =
     (case get_zone_id serve zone_name w of
        None \<Rightarrow> None
      | Some (Inl e, w1) \<Rightarrow> Some (Inl e, record_data, w1)
      | Some (Inr zone_id, w1) \<Rightarrow>
          (case handle_record_data record_data False of
             Inl e \<Rightarrow> Some (Inl e, record_data, w1)
           | Inr record_data' \<Rightarrow>
               (case request serve PUT (Dnszone_records zone_id) None
                       (Some (JObj record_data')) w1 of
                  (Inl e, w2) \<Rightarrow> Some (Inl e, record_data', w2)
                | (Inr r, w2) \<Rightarrow> Some (response_json r, record_data', w2))))"

definition record_update ::
  "'p provider \<Rightarrow> string \<Rightarrow> json \<Rightarrow> payload \<Rightarrow> 'p world \<Rightarrow>
   ((error + http_response) \<times> payload \<times> 'p world) option" where
  "record_update serve zone_name record_id record_data w =
     (case get_zone_id serve zone_name w of
        None \<Rightarrow> None
      | Some (Inl e, w1) \<Rightarrow> Some (Inl e, record_data, w1)
      | Some (Inr zone_id, w1) \<Rightarrow>
          (case handle_record_data record_data True of
             Inl e \<Rightarrow> Some (Inl e, record_data, w1)
           | Inr record_data' \<Rightarrow>
               (case request serve POST (Dnszone_record zone_id record_id) None
                       (Some (JObj record_data')) w1 of
                  (r, w2) \<Rightarrow> Some (r, record_data', w2))))"

definition record_delete ::
  "'p provider \<Rightarrow> string \<Rightarrow> json \<Rightarrow> 'p world \<Rightarrow>
   ((error + http_response) \<times> 'p world) option" where
  "record_delete serve zone_name record_id w =
     (case get_zone_id serve zone_name w of
        None \<Rightarrow> None
      | Some (Inl e, w1) \<Rightarrow> Some (Inl e, w1)
      | Some (Inr zone_id, w1) \<Rightarrow>
          Some (request serve DELETE (Dnszone_record zone_id record_id) None None w1))"

subsection \<open>Vocabulary of the properties\<close>

text \<open>A listing request: \<^verbatim>\<open>GET /dnszone\<close>; \<open>listing_request n\<close> is the one for page \<open>n\<close>.\<close>

definition is_listing :: "http_request \<Rightarrow> bool" where
  "is_listing rq = (rq_method rq = GET \<and> rq_path rq = Dnszone)"

definition listing_request :: "int \<Rightarrow> http_request" where
  "listing_request n =
     \<lparr>rq_method = GET, rq_path = Dnszone, rq_params = Some [(''page'', n)], rq_data = None\<rparr>"

subsection \<open>Concrete providers, for closed examples\<close>

text \<open>
  A provider that answers from a fixed script, whatever is asked, and fails to answer once
  the script is used up.
\<close>

fun scripted :: "http_response list provider" where
  "scripted [] rq = (None, [])"
| "scripted (r # rs) rq = (Some r, rs)"

text \<open>A listing page as section 6 of the specification gives it.\<close>

definition listing :: "(string \<times> json) list \<Rightarrow> bool \<Rightarrow> json" where
  "listing zs has_more =
     JObj [(''Items'', JList (map (\<lambda>z. JObj [(''Domain'', JStr (fst z)), (''Id'', snd z)]) zs)),
           (''HasMoreItems'', JBool has_more)]"

definition ok :: "json \<Rightarrow> http_response" where
  "ok j = \<lparr>status_code = 200, body = Some j\<rparr>"

text \<open>
  A provider that hosts the zones of its state (domain and identifier): it lists them all
  on one page, creates a zone under the next free identifier, and shows a zone it hosts.
\<close>

definition hosting :: "(string \<times> int) list provider" where
  "hosting zs rq =
     (case rq_path rq of
        Dnszone \<Rightarrow>
          (if rq_method rq = GET then
             (Some (ok (listing (map (\<lambda>z. (fst z, JInt (snd z))) zs) False)), zs)
           else if rq_method rq = POST then
             (case rq_data rq of
                Some (JObj [(k, JStr d)]) \<Rightarrow>
                  (Some \<lparr>status_code = 201,
                          body = Some (JObj [(''Id'', JInt (int (length zs) + 1)),
                                             (''Domain'', JStr d)])\<rparr>,
                   zs @ [(d, int (length zs) + 1)])
              | _ \<Rightarrow> (Some \<lparr>status_code = 400, body = None\<rparr>, zs))
           else (Some \<lparr>status_code = 405, body = None\<rparr>, zs))
      | Dnszone_id i \<Rightarrow>
          (if rq_method rq = GET \<and> i \<in> set (map (\<lambda>z. JInt (snd z)) zs) then
             (Some (ok (JObj [(''Id'', i), (''Records'', JList [])])), zs)
           else (Some \<lparr>status_code = 404, body = None\<rparr>, zs))
      | _ \<Rightarrow> (Some \<lparr>status_code = 404, body = None\<rparr>, zs))"

section \<open>Properties\<close>

subsection \<open>Dictionaries and requests\<close>


lemma py_key_eq_JStr [simp]: "py_key k = JStr n \<longleftrightarrow> k = JStr n"
  by (cases k) auto

lemma dict_get_JStr:
  "dict_get d (JStr n) = (case map_of d (JStr n) of None \<Rightarrow> JNull | Some v \<Rightarrow> v)"
  by (induction d) auto

lemma dict_get_absent: "JStr n \<notin> fst ` set d \<Longrightarrow> dict_get d (JStr n) = JNull"
  by (induction d) auto

lemma dict_set_JStr: "dict_set (JStr n) v d = AList.update (JStr n) v d"
  by (induction d) auto

lemma dict_get_dict_set: "dict_get (dict_set k v d) k = v"
  by (induction d) auto

lemma dict_set_not_empty: "dict_set k v d \<noteq> []"
  by (cases d) auto

lemma request_sent:
  "sent (snd (request serve m p ps d w)) =
     sent w @ [\<lparr>rq_method = m, rq_path = p, rq_params = ps, rq_data = d\<rparr>]"
  by (simp add: request_def Let_def split: option.splits)

lemma request_self_zones: "self_zones (snd (request serve m p ps d w)) = self_zones w"
  by (simp add: request_def Let_def split: option.splits)

lemma cache_zones_loop_sent:
  "cache_zones_loop serve page w = Some y \<Longrightarrow>
     \<exists>rqs. sent (snd y) = sent w @ rqs \<and> list_all is_listing rqs"
proof (induction rule: cache_zones_loop.raw_induct [rotated 1, consumes 1, case_names step])
  case (step loop serve page w y)
  let ?q = "request serve GET Dnszone (Some [(''page'', page)]) None w"
  have s: "sent (snd ?q) = sent w @ [listing_request page]"
    by (simp add: request_sent listing_request_def)
  have l: "is_listing (listing_request page)"
    by (simp add: is_listing_def listing_request_def)
  show ?case
  proof (cases ?q)
    case (Pair a w1)
    with s have s1: "sent w1 = sent w @ [listing_request page]" by simp
    show ?thesis
    proof (cases "\<exists>d. y = (Inr (), w1\<lparr>self_zones := d\<rparr>) \<or>
                       (\<exists>e. y = (Inl e, w1\<lparr>self_zones := d\<rparr>)) \<or> (\<exists>e. y = (Inl e, w1))")
      case True
      then have "sent (snd y) = sent w1" by auto
      with s1 l show ?thesis by auto
    next
      case False
      with step(2) Pair obtain d where "loop serve (page + 1) (w1\<lparr>self_zones := d\<rparr>) = Some y"
        by (auto split: sum.splits prod.splits if_splits)
      from step(1)[OF this] obtain rqs
        where "sent (snd y) = sent w1 @ rqs" "list_all is_listing rqs"
        by auto
      with s1 l have "sent (snd y) = sent w @ (listing_request page # rqs) \<and>
                      list_all is_listing (listing_request page # rqs)"
        by simp
      then show ?thesis by blast
    qed
  qed
qed

lemma get_zone_id_cached:
  "self_zones w \<noteq> [] \<Longrightarrow>
   get_zone_id serve n w =
     Some (if truthy (dict_get (self_zones w) (JStr n))
           then Inr (dict_get (self_zones w) (JStr n)) else Inl BunnyClientNotFound, w)"
  by (simp add: get_zone_id_def Let_def)

lemma get_zone_id_sent:
  assumes "get_zone_id serve n w = Some (r, w1)"
  shows "\<exists>rqs. sent w1 = sent w @ rqs \<and> list_all is_listing rqs"
proof (cases "self_zones w = []")
  case False
  with assms have "w1 = w" by (simp add: get_zone_id_cached split: if_splits)
  then show ?thesis by simp
next
  case True
  with assms obtain u where "cache_zones_loop serve 1 w = Some (u, w1)"
    by (auto simp: get_zone_id_def cache_zones_def Let_def
             split: option.splits sum.splits prod.splits if_splits)
  from cache_zones_loop_sent[OF this] show ?thesis by simp
qed

lemma get_zone_id_truthy:
  "get_zone_id serve n w = Some (Inr zid, w1) \<Longrightarrow> truthy zid"
  by (auto simp: get_zone_id_def Let_def split: option.splits sum.splits prod.splits if_splits)

subsection \<open>Unknown zone names\<close>

text \<open>
  Claim C6. Once the dictionary is loaded (it was not empty, or it was empty and
  \<^verbatim>\<open>_cache_zones\<close> returned), a zone name that is not one of its keys makes get zone, create
  record, update record and delete record raise \<^verbatim>\<open>BunnyClientNotFound\<close>. The world they
  leave is the world \<open>w1\<close> right after the load, so nothing was sent after it, and what the
  load itself sent are listing requests only.
\<close>

theorem unknown_zone_not_found:
  assumes load: "self_zones w \<noteq> [] \<and> w1 = w \<or>
                 self_zones w = [] \<and> cache_zones serve w = Some (Inr (), w1)"
    and miss: "JStr zone_name \<notin> fst ` set (self_zones w1)"
  shows "zone serve zone_name w = Some (Inl BunnyClientNotFound, w1) \<and>
         record_create serve zone_name record_data w =
           Some (Inl BunnyClientNotFound, record_data, w1) \<and>
         record_update serve zone_name record_id record_data w =
           Some (Inl BunnyClientNotFound, record_data, w1) \<and>
         record_delete serve zone_name record_id w = Some (Inl BunnyClientNotFound, w1) \<and>
         (\<exists>rqs. sent w1 = sent w @ rqs \<and> list_all is_listing rqs)"
proof -
  from miss have g: "dict_get (self_zones w1) (JStr zone_name) = JNull"
    by (rule dict_get_absent)
  from load g have z: "get_zone_id serve zone_name w = Some (Inl BunnyClientNotFound, w1)"
    by (auto simp: get_zone_id_def Let_def)
  from get_zone_id_sent[OF z] z show ?thesis
    by (simp add: zone_def record_create_def record_update_def record_delete_def)
qed

theorem unknown_zone_not_found_witness:
  "zone scripted ''b.com'' (init [ok (listing [(''a.com'', JInt 1)] False)]) =
     Some (Inl BunnyClientNotFound,
           \<lparr>self_zones = [(JStr ''a.com'', JInt 1)], sent = [listing_request 1], remote = []\<rparr>) \<and>
   record_delete scripted ''b.com'' (JInt 5) (init [ok (listing [(''a.com'', JInt 1)] False)]) =
     Some (Inl BunnyClientNotFound,
           \<lparr>self_zones = [(JStr ''a.com'', JInt 1)], sent = [listing_request 1], remote = []\<rparr>)"
proof -
  let ?w = "init [ok (listing [(''a.com'', JInt 1)] False)]"
  let ?w1 = "\<lparr>self_zones = [(JStr ''a.com'', JInt 1)], sent = [listing_request 1],
              remote = ([] :: http_response list)\<rparr>"
  have "cache_zones scripted ?w = Some (Inr (), ?w1)"
    unfolding cache_zones_def
    by (subst cache_zones_loop.simps)
       (simp add: init_def request_def raise_for_status_def ok_def listing_def response_json_def
          cache_page_def dict_setitem_def eq_True_def listing_request_def)
  then have load: "self_zones ?w \<noteq> [] \<and> ?w1 = ?w \<or>
                   self_zones ?w = [] \<and> cache_zones scripted ?w = Some (Inr (), ?w1)"
    by (simp add: init_def)
  have miss: "JStr ''b.com'' \<notin> fst ` set (self_zones ?w1)" by simp
  from unknown_zone_not_found[OF load miss] show ?thesis by blast
qed

subsection \<open>Payload validation\<close>


lemma handle_record_data_create_ok:
  "payload_get record_data ''Type'' = JStr s \<Longrightarrow> map_of RECORD_TYPES s = Some code \<Longrightarrow>
   handle_record_data record_data False = Inr (AList.update ''Type'' (JInt code) record_data)"
  by (auto simp: handle_record_data_def Let_def RECORD_TYPES_def split: if_splits)

lemma handle_record_data_create_Inr:
  assumes "handle_record_data record_data False = Inr d"
  shows "\<exists>s code. payload_get record_data ''Type'' = JStr s \<and> map_of RECORD_TYPES s = Some code \<and>
           d = AList.update ''Type'' (JInt code) record_data"
proof (cases "payload_get record_data ''Type''")
  case (JStr s)
  with assms show ?thesis
    by (auto simp: handle_record_data_def Let_def split: if_splits option.splits)
qed (use assms in \<open>auto simp: handle_record_data_def Let_def split: if_splits option.splits\<close>)

lemma handle_record_data_update_Inr:
  "handle_record_data record_data True = Inr d \<longleftrightarrow>
     payload_get record_data ''Name'' = JNull \<and> payload_get record_data ''Type'' = JNull \<and>
     d = AList.delete ''Type'' (AList.delete ''Name'' record_data)"
  by (auto simp: handle_record_data_def Let_def)

lemma payload_get_update: "payload_get (AList.update k v d) k = v"
  by (simp add: payload_get_def update_conv')

lemma record_create_resolved:
  "get_zone_id serve zone_name w = Some (Inr zone_id, w1) \<Longrightarrow>
   record_create serve zone_name record_data w =
     (case handle_record_data record_data False of
        Inl e \<Rightarrow> Some (Inl e, record_data, w1)
      | Inr d \<Rightarrow>
          (case request serve PUT (Dnszone_records zone_id) None (Some (JObj d)) w1 of
             (Inl e, w2) \<Rightarrow> Some (Inl e, d, w2)
           | (Inr r, w2) \<Rightarrow> Some (response_json r, d, w2)))"
  by (simp add: record_create_def)

lemma record_update_resolved:
  "get_zone_id serve zone_name w = Some (Inr zone_id, w1) \<Longrightarrow>
   record_update serve zone_name record_id record_data w =
     (case handle_record_data record_data True of
        Inl e \<Rightarrow> Some (Inl e, record_data, w1)
      | Inr d \<Rightarrow>
          (case request serve POST (Dnszone_record zone_id record_id) None (Some (JObj d)) w1 of
             (r, w2) \<Rightarrow> Some (r, d, w2)))"
  by (simp add: record_update_def)

subsection \<open>The type code of an A record\<close>

text \<open>
  Claim C8. When the payload's \<^verbatim>\<open>Type\<close> is the string \<^verbatim>\<open>"A"\<close> and the zone name
  resolves, create record sends exactly one more request, the \<^verbatim>\<open>PUT\<close> on the zone's
  records, and the body of that request has \<^verbatim>\<open>Type\<close> set to the integer 0: the code 0 is
  not taken for a missing type.
\<close>

theorem record_create_type_A_sends_0:
  assumes a: "payload_get record_data ''Type'' = JStr ''A''"
    and z: "get_zone_id serve zone_name w = Some (Inr zone_id, w1)"
  shows "\<exists>res w2.
           record_create serve zone_name record_data w =
             Some (res, AList.update ''Type'' (JInt 0) record_data, w2) \<and>
           sent w2 = sent w1 @
             [\<lparr>rq_method = PUT, rq_path = Dnszone_records zone_id, rq_params = None,
               rq_data = Some (JObj (AList.update ''Type'' (JInt 0) record_data))\<rparr>] \<and>
           getitem (JObj (AList.update ''Type'' (JInt 0) record_data)) ''Type'' = Inr (JInt 0)"
proof -
  let ?d = "AList.update ''Type'' (JInt 0) record_data"
  let ?q = "request serve PUT (Dnszone_records zone_id) None (Some (JObj ?d)) w1"
  have h: "handle_record_data record_data False = Inr ?d"
    using a by (rule handle_record_data_create_ok) (simp add: RECORD_TYPES_def)
  have s: "sent (snd ?q) = sent w1 @
             [\<lparr>rq_method = PUT, rq_path = Dnszone_records zone_id, rq_params = None,
               rq_data = Some (JObj ?d)\<rparr>]"
    by (rule request_sent)
  have g: "getitem (JObj ?d) ''Type'' = Inr (JInt 0)"
    by (simp add: update_conv')
  show ?thesis
  proof (cases ?q)
    case (Pair r w2)
    with s have "sent w2 = sent w1 @
             [\<lparr>rq_method = PUT, rq_path = Dnszone_records zone_id, rq_params = None,
               rq_data = Some (JObj ?d)\<rparr>]" by simp
    with Pair h g show ?thesis
      by (cases r) (simp_all add: record_create_resolved[OF z])
  qed
qed

theorem record_create_type_A_sends_0_witness:
  "\<exists>res w2.
     record_create scripted ''example.com'' [(''Type'', JStr ''A''), (''Name'', JStr ''www'')]
       \<lparr>self_zones = [(JStr ''example.com'', JInt 7)], sent = [], remote = [ok JNull]\<rparr> =
       Some (res, [(''Type'', JInt 0), (''Name'', JStr ''www'')], w2) \<and>
     sent w2 =
       [\<lparr>rq_method = PUT, rq_path = Dnszone_records (JInt 7), rq_params = None,
         rq_data = Some (JObj [(''Type'', JInt 0), (''Name'', JStr ''www'')])\<rparr>]"
proof -
  let ?d = "[(''Type'', JStr ''A''), (''Name'', JStr ''www'')]"
  let ?w = "\<lparr>self_zones = [(JStr ''example.com'', JInt 7)], sent = [],
             remote = [ok JNull]\<rparr>"
  have a: "payload_get ?d ''Type'' = JStr ''A''"
    by (simp add: payload_get_def)
  have z: "get_zone_id scripted ''example.com'' ?w = Some (Inr (JInt 7), ?w)"
    by (simp add: get_zone_id_cached)
  from record_create_type_A_sends_0[OF a z] show ?thesis by simp
qed


subsection \<open>The caller's payload is changed in place\<close>

text \<open>
  Claim C10. The second component of the result of create record and update record is the
  caller's dictionary as the method leaves it. After a successful create it is the payload
  with the symbolic \<^verbatim>\<open>Type\<close> overwritten by its integer code, and so differs from the
  payload passed in. After a successful update, \<^verbatim>\<open>Name\<close> and \<^verbatim>\<open>Type\<close> were absent or
  \<^verbatim>\<open>None\<close>, both keys are gone, and the dictionary differs from the one passed in whenever
  one of the two keys was there.
\<close>

theorem payload_changed_in_place:
  "(record_create serve zone_name record_data w = Some (Inr r, record_data', w') \<longrightarrow>
      (\<exists>s code. payload_get record_data ''Type'' = JStr s \<and>
                 map_of RECORD_TYPES s = Some code \<and>
                 record_data' = AList.update ''Type'' (JInt code) record_data \<and>
                 payload_get record_data' ''Type'' = JInt code) \<and>
      record_data' \<noteq> record_data) \<and>
   (record_update serve zone_name record_id payload w = Some (Inr r2, payload', w2') \<longrightarrow>
      payload_get payload ''Name'' = JNull \<and> payload_get payload ''Type'' = JNull \<and>
      payload' = AList.delete ''Type'' (AList.delete ''Name'' payload) \<and>
      ''Name'' \<notin> fst ` set payload' \<and> ''Type'' \<notin> fst ` set payload' \<and>
      (''Name'' \<in> fst ` set payload \<or> ''Type'' \<in> fst ` set payload \<longrightarrow> payload' \<noteq> payload))"
proof (intro conjI impI)
  assume c: "record_create serve zone_name record_data w = Some (Inr r, record_data', w')"
  then obtain zone_id w1 where z: "get_zone_id serve zone_name w = Some (Inr zone_id, w1)"
    by (auto simp: record_create_def split: option.splits sum.splits prod.splits)
  from c have h: "handle_record_data record_data False = Inr record_data'"
    unfolding record_create_resolved[OF z]
    by (auto split: sum.splits prod.splits)
  from handle_record_data_create_Inr[OF h] obtain s code
    where t: "payload_get record_data ''Type'' = JStr s" "map_of RECORD_TYPES s = Some code"
      "record_data' = AList.update ''Type'' (JInt code) record_data"
    by blast
  then have n: "payload_get record_data' ''Type'' = JInt code"
    by (simp add: payload_get_update)
  from t n show "\<exists>s code. payload_get record_data ''Type'' = JStr s \<and>
                 map_of RECORD_TYPES s = Some code \<and>
                 record_data' = AList.update ''Type'' (JInt code) record_data \<and>
                 payload_get record_data' ''Type'' = JInt code"
    by blast
  from t(1) n show "record_data' \<noteq> record_data" by auto
next
  assume u: "record_update serve zone_name record_id payload w = Some (Inr r2, payload', w2')"
  then obtain zone_id w1 where z: "get_zone_id serve zone_name w = Some (Inr zone_id, w1)"
    by (auto simp: record_update_def split: option.splits sum.splits prod.splits)
  from u have h: "handle_record_data payload True = Inr payload'"
    unfolding record_update_resolved[OF z]
    by (auto split: sum.splits prod.splits)
  then show "payload_get payload ''Name'' = JNull" "payload_get payload ''Type'' = JNull"
    and p: "payload' = AList.delete ''Type'' (AList.delete ''Name'' payload)"
    by (simp_all add: handle_record_data_update_Inr)
  from p show nn: "''Name'' \<notin> fst ` set payload'"
    by (simp add: delete_twist[of "''Type''"] delete_notin_dom)
  from p show nt: "''Type'' \<notin> fst ` set payload'"
    by (simp add: delete_notin_dom)
  assume "''Name'' \<in> fst ` set payload \<or> ''Type'' \<in> fst ` set payload"
  with nn nt show "payload' \<noteq> payload" by auto
qed

theorem payload_changed_in_place_witness:
  "record_create scripted ''example.com'' [(''Type'', JStr ''MX''), (''Value'', JStr ''mail'')]
       \<lparr>self_zones = [(JStr ''example.com'', JInt 7)], sent = [],
        remote = [ok (JObj [(''Id'', JInt 3)])]\<rparr> =
     Some (Inr (JObj [(''Id'', JInt 3)]), [(''Type'', JInt 4), (''Value'', JStr ''mail'')],
           \<lparr>self_zones = [(JStr ''example.com'', JInt 7)],
            sent = [\<lparr>rq_method = PUT, rq_path = Dnszone_records (JInt 7), rq_params = None,
                     rq_data = Some (JObj [(''Type'', JInt 4), (''Value'', JStr ''mail'')])\<rparr>],
            remote = []\<rparr>) \<and>
   [(''Type'', JInt 4), (''Value'', JStr ''mail'')] \<noteq>
     [(''Type'', JStr ''MX''), (''Value'', JStr ''mail'')] \<and>
   record_update scripted ''example.com'' (JInt 9) [(''Name'', JNull), (''Ttl'', JInt 300)]
       \<lparr>self_zones = [(JStr ''example.com'', JInt 7)], sent = [], remote = [ok JNull]\<rparr> =
     Some (Inr (ok JNull), [(''Ttl'', JInt 300)],
           \<lparr>self_zones = [(JStr ''example.com'', JInt 7)],
            sent = [\<lparr>rq_method = POST, rq_path = Dnszone_record (JInt 7) (JInt 9),
                     rq_params = None, rq_data = Some (JObj [(''Ttl'', JInt 300)])\<rparr>],
            remote = []\<rparr>) \<and>
   [(''Ttl'', JInt 300)] \<noteq> [(''Name'', JNull), (''Ttl'', JInt 300)]"
proof -
  let ?w = "\<lparr>self_zones = [(JStr ''example.com'', JInt 7)], sent = [],
             remote = [ok (JObj [(''Id'', JInt 3)])]\<rparr>"
  let ?w' = "\<lparr>self_zones = [(JStr ''example.com'', JInt 7)],
            sent = [\<lparr>rq_method = PUT, rq_path = Dnszone_records (JInt 7), rq_params = None,
                     rq_data = Some (JObj [(''Type'', JInt 4), (''Value'', JStr ''mail'')])\<rparr>],
            remote = ([] :: http_response list)\<rparr>"
  let ?v = "\<lparr>self_zones = [(JStr ''example.com'', JInt 7)], sent = [], remote = [ok JNull]\<rparr>"
  let ?v' = "\<lparr>self_zones = [(JStr ''example.com'', JInt 7)],
            sent = [\<lparr>rq_method = POST, rq_path = Dnszone_record (JInt 7) (JInt 9),
                     rq_params = None, rq_data = Some (JObj [(''Ttl'', JInt 300)])\<rparr>],
            remote = ([] :: http_response list)\<rparr>"
  have c: "record_create scripted ''example.com''
             [(''Type'', JStr ''MX''), (''Value'', JStr ''mail'')] ?w =
           Some (Inr (JObj [(''Id'', JInt 3)]), [(''Type'', JInt 4), (''Value'', JStr ''mail'')], ?w')"
    by (simp add: record_create_def get_zone_id_cached handle_record_data_def payload_get_def
          RECORD_TYPES_def request_def raise_for_status_def ok_def response_json_def)
  have u: "record_update scripted ''example.com'' (JInt 9)
             [(''Name'', JNull), (''Ttl'', JInt 300)] ?v =
           Some (Inr (ok JNull), [(''Ttl'', JInt 300)], ?v')"
    by (simp add: record_update_def get_zone_id_cached handle_record_data_def payload_get_def
          request_def raise_for_status_def ok_def)
  have k: "''Name'' \<in> fst ` set [(''Name'', JNull), (''Ttl'', JInt 300)] \<or>
           ''Type'' \<in> fst ` set [(''Name'', JNull), (''Ttl'', JInt 300)]"
    by simp
  from payload_changed_in_place
    [of scripted "''example.com''" "[(''Type'', JStr ''MX''), (''Value'', JStr ''mail'')]" ?w
        "JObj [(''Id'', JInt 3)]" "[(''Type'', JInt 4), (''Value'', JStr ''mail'')]" ?w'
        "JInt 9" "[(''Name'', JNull), (''Ttl'', JInt 300)]"]
  have "[(''Type'', JInt 4), (''Value'', JStr ''mail'')] \<noteq>
          [(''Type'', JStr ''MX''), (''Value'', JStr ''mail'')]"
    using c by blast
  moreover from payload_changed_in_place
    [of scripted "''example.com''" _ ?v _ _ _ "JInt 9"
        "[(''Name'', JNull), (''Ttl'', JInt 300)]" "ok JNull" "[(''Ttl'', JInt 300)]" ?v']
  have "[(''Ttl'', JInt 300)] \<noteq> [(''Name'', JNull), (''Ttl'', JInt 300)]"
    using u k by blast
  ultimately show ?thesis using c u by blast
qed

lemma handle_record_data_update_rejects:
  "payload_get record_data ''Name'' \<noteq> JNull \<or> payload_get record_data ''Type'' \<noteq> JNull \<Longrightarrow>
   handle_record_data record_data True =
     Inl (BunnyClientException
            (if payload_get record_data ''Name'' \<noteq> JNull
             then ''Existing record name can'be updated.''
             else ''Existing record type can'be updated.'') None)"
  by (auto simp: handle_record_data_def Let_def)

lemma handle_record_data_create_rejects:
  "payload_get record_data ''Type'' = JNull \<or>
   payload_get record_data ''Type'' = JStr s \<and> map_of RECORD_TYPES s = None \<Longrightarrow>
   handle_record_data record_data False =
     Inl (if truthy (payload_get record_data ''Type'')
          then BunnyClientException ''Unsupported resource record type: ''
                 (Some (payload_get record_data ''Type''))
          else BunnyClientException ''No resource record type specified.'' None)"
  by (auto simp: handle_record_data_def Let_def)

subsection \<open>Update record and the fields \<^verbatim>\<open>Name\<close> and \<^verbatim>\<open>Type\<close>\<close>

text \<open>
  Claim C2 says that any payload with a \<^verbatim>\<open>Name\<close> or \<^verbatim>\<open>Type\<close> key, whatever its value,
  makes update record raise a validation error without any HTTP request. Three calls show
  where the code differs. A \<^verbatim>\<open>Name\<close> key holding \<^verbatim>\<open>None\<close> is accepted: the key is removed
  and the update request is sent. With an empty dictionary the zone name is resolved before
  the payload is looked at, so the listing request is sent before the validation error is
  raised. And a zone name that does not resolve raises \<^verbatim>\<open>BunnyClientNotFound\<close>, not the
  validation error.
\<close>

theorem record_update_None_name_counterexample:
  "record_update scripted ''example.com'' (JInt 9) [(''Name'', JNull)]
       \<lparr>self_zones = [(JStr ''example.com'', JInt 7)], sent = [], remote = [ok JNull]\<rparr> =
     Some (Inr (ok JNull), [],
           \<lparr>self_zones = [(JStr ''example.com'', JInt 7)],
            sent = [\<lparr>rq_method = POST, rq_path = Dnszone_record (JInt 7) (JInt 9),
                     rq_params = None, rq_data = Some (JObj [])\<rparr>],
            remote = []\<rparr>) \<and>
   record_update scripted ''example.com'' (JInt 9) [(''Name'', JStr ''www'')]
       (init [ok (listing [(''example.com'', JInt 7)] False)]) =
     Some (Inl (BunnyClientException ''Existing record name can'be updated.'' None),
           [(''Name'', JStr ''www'')],
           \<lparr>self_zones = [(JStr ''example.com'', JInt 7)], sent = [listing_request 1],
            remote = []\<rparr>) \<and>
   record_update scripted ''other.org'' (JInt 9) [(''Name'', JStr ''www'')]
       \<lparr>self_zones = [(JStr ''example.com'', JInt 7)], sent = [], remote = [ok JNull]\<rparr> =
     Some (Inl BunnyClientNotFound, [(''Name'', JStr ''www'')],
           \<lparr>self_zones = [(JStr ''example.com'', JInt 7)], sent = [], remote = [ok JNull]\<rparr>)"
proof (intro conjI)
  show "record_update scripted ''example.com'' (JInt 9) [(''Name'', JNull)]
       \<lparr>self_zones = [(JStr ''example.com'', JInt 7)], sent = [], remote = [ok JNull]\<rparr> =
     Some (Inr (ok JNull), [],
           \<lparr>self_zones = [(JStr ''example.com'', JInt 7)],
            sent = [\<lparr>rq_method = POST, rq_path = Dnszone_record (JInt 7) (JInt 9),
                     rq_params = None, rq_data = Some (JObj [])\<rparr>],
            remote = []\<rparr>)"
    by (simp add: record_update_def get_zone_id_cached handle_record_data_def payload_get_def
          request_def raise_for_status_def ok_def)
  have "cache_zones scripted (init [ok (listing [(''example.com'', JInt 7)] False)]) =
          Some (Inr (), \<lparr>self_zones = [(JStr ''example.com'', JInt 7)],
                         sent = [listing_request 1], remote = []\<rparr>)"
    unfolding cache_zones_def
    by (subst cache_zones_loop.simps)
       (simp add: init_def request_def raise_for_status_def ok_def listing_def response_json_def
          cache_page_def dict_setitem_def eq_True_def listing_request_def)
  then show "record_update scripted ''example.com'' (JInt 9) [(''Name'', JStr ''www'')]
       (init [ok (listing [(''example.com'', JInt 7)] False)]) =
     Some (Inl (BunnyClientException ''Existing record name can'be updated.'' None),
           [(''Name'', JStr ''www'')],
           \<lparr>self_zones = [(JStr ''example.com'', JInt 7)], sent = [listing_request 1],
            remote = []\<rparr>)"
    by (simp add: record_update_def get_zone_id_def Let_def handle_record_data_def
          payload_get_def init_def)
  show "record_update scripted ''other.org'' (JInt 9) [(''Name'', JStr ''www'')]
       \<lparr>self_zones = [(JStr ''example.com'', JInt 7)], sent = [], remote = [ok JNull]\<rparr> =
     Some (Inl BunnyClientNotFound, [(''Name'', JStr ''www'')],
           \<lparr>self_zones = [(JStr ''example.com'', JInt 7)], sent = [], remote = [ok JNull]\<rparr>)"
    by (simp add: record_update_def get_zone_id_cached)
qed

text \<open>
  Claim C2, as the code has it. The payload holds a value other than \<^verbatim>\<open>None\<close> under
  \<^verbatim>\<open>Name\<close> or \<^verbatim>\<open>Type\<close>. If the dictionary is loaded and resolves the zone name, update
  record raises the validation error and the world is unchanged: no request at all. In any
  world, if the call returns, it returns an exception, the caller's payload is unchanged and
  everything sent during the call is a listing request: the update request is never sent.
\<close>

theorem record_update_rejects_name_and_type:
  assumes nt: "payload_get record_data ''Name'' \<noteq> JNull \<or>
               payload_get record_data ''Type'' \<noteq> JNull"
  shows "(self_zones w \<noteq> [] \<and> truthy (dict_get (self_zones w) (JStr zone_name)) \<longrightarrow>
            record_update serve zone_name record_id record_data w =
              Some (Inl (BunnyClientException
                           (if payload_get record_data ''Name'' \<noteq> JNull
                            then ''Existing record name can'be updated.''
                            else ''Existing record type can'be updated.'') None),
                    record_data, w)) \<and>
         (record_update serve zone_name record_id record_data w = Some (r, d, w') \<longrightarrow>
            (\<exists>e. r = Inl e) \<and> d = record_data \<and>
            (\<exists>rqs. sent w' = sent w @ rqs \<and> list_all is_listing rqs))"
proof (intro conjI impI)
  assume "self_zones w \<noteq> [] \<and> truthy (dict_get (self_zones w) (JStr zone_name))"
  then have "get_zone_id serve zone_name w =
               Some (Inr (dict_get (self_zones w) (JStr zone_name)), w)"
    by (simp add: get_zone_id_cached)
  then show "record_update serve zone_name record_id record_data w =
              Some (Inl (BunnyClientException
                           (if payload_get record_data ''Name'' \<noteq> JNull
                            then ''Existing record name can'be updated.''
                            else ''Existing record type can'be updated.'') None),
                    record_data, w)"
    by (simp add: record_update_resolved handle_record_data_update_rejects[OF nt])
next
  assume u: "record_update serve zone_name record_id record_data w = Some (r, d, w')"
  then obtain g where g: "get_zone_id serve zone_name w = Some (g, w')"
      and rd: "(\<exists>e. r = Inl e) \<and> d = record_data"
    by (auto simp: record_update_def handle_record_data_update_rejects[OF nt]
             split: option.splits sum.splits prod.splits)
  from rd show "\<exists>e. r = Inl e" "d = record_data" by simp_all
  from get_zone_id_sent[OF g] show "\<exists>rqs. sent w' = sent w @ rqs \<and> list_all is_listing rqs" .
qed

theorem record_update_rejects_name_and_type_witness:
  "record_update scripted ''example.com'' (JInt 9) [(''Type'', JStr ''A'')]
       \<lparr>self_zones = [(JStr ''example.com'', JInt 7)], sent = [], remote = [ok JNull]\<rparr> =
     Some (Inl (BunnyClientException ''Existing record type can'be updated.'' None),
           [(''Type'', JStr ''A'')],
           \<lparr>self_zones = [(JStr ''example.com'', JInt 7)], sent = [], remote = [ok JNull]\<rparr>) \<and>
   (\<exists>rqs. sent \<lparr>self_zones = [(JStr ''example.com'', JInt 7)], sent = [],
                 remote = [ok JNull]\<rparr> = [] @ rqs \<and> list_all is_listing rqs)"
proof -
  let ?w = "\<lparr>self_zones = [(JStr ''example.com'', JInt 7)], sent = [], remote = [ok JNull]\<rparr>"
  have nt: "payload_get [(''Type'', JStr ''A'')] ''Name'' \<noteq> JNull \<or>
            payload_get [(''Type'', JStr ''A'')] ''Type'' \<noteq> JNull"
    by (simp add: payload_get_def)
  have c: "self_zones ?w \<noteq> [] \<and> truthy (dict_get (self_zones ?w) (JStr ''example.com''))"
    by simp
  note t = record_update_rejects_name_and_type[OF nt, of ?w "''example.com''" scripted "JInt 9"]
  from t c have u: "record_update scripted ''example.com'' (JInt 9) [(''Type'', JStr ''A'')] ?w =
     Some (Inl (BunnyClientException ''Existing record type can'be updated.'' None),
           [(''Type'', JStr ''A'')], ?w)"
    by (simp add: payload_get_def)
  with t[of _ _ ?w] show ?thesis by simp
qed

subsection \<open>Create record and the record type\<close>

text \<open>
  Claim C3 says that an unrecognized or missing type makes create record raise a validation
  error with no request of any kind, whatever the state of the cache. With an empty
  dictionary the zone name is resolved first, so the listing request is sent before the
  validation error is raised; and a zone name that does not resolve raises
  \<^verbatim>\<open>BunnyClientNotFound\<close> before the payload is looked at.
\<close>

theorem record_create_bogus_type_counterexample:
  "record_create scripted ''example.com'' [(''Type'', JStr ''BOGUS'')]
       (init [ok (listing [(''example.com'', JInt 7)] False)]) =
     Some (Inl (BunnyClientException ''Unsupported resource record type: ''
                  (Some (JStr ''BOGUS''))),
           [(''Type'', JStr ''BOGUS'')],
           \<lparr>self_zones = [(JStr ''example.com'', JInt 7)], sent = [listing_request 1],
            remote = []\<rparr>) \<and>
   record_create scripted ''other.org'' [(''Type'', JStr ''BOGUS'')]
       \<lparr>self_zones = [(JStr ''example.com'', JInt 7)], sent = [], remote = [ok JNull]\<rparr> =
     Some (Inl BunnyClientNotFound, [(''Type'', JStr ''BOGUS'')],
           \<lparr>self_zones = [(JStr ''example.com'', JInt 7)], sent = [], remote = [ok JNull]\<rparr>)"
proof (intro conjI)
  have "cache_zones scripted (init [ok (listing [(''example.com'', JInt 7)] False)]) =
          Some (Inr (), \<lparr>self_zones = [(JStr ''example.com'', JInt 7)],
                         sent = [listing_request 1], remote = []\<rparr>)"
    unfolding cache_zones_def
    by (subst cache_zones_loop.simps)
       (simp add: init_def request_def raise_for_status_def ok_def listing_def response_json_def
          cache_page_def dict_setitem_def eq_True_def listing_request_def)
  then show "record_create scripted ''example.com'' [(''Type'', JStr ''BOGUS'')]
       (init [ok (listing [(''example.com'', JInt 7)] False)]) =
     Some (Inl (BunnyClientException ''Unsupported resource record type: ''
                  (Some (JStr ''BOGUS''))),
           [(''Type'', JStr ''BOGUS'')],
           \<lparr>self_zones = [(JStr ''example.com'', JInt 7)], sent = [listing_request 1],
            remote = []\<rparr>)"
    by (simp add: record_create_def get_zone_id_def Let_def handle_record_data_def
          payload_get_def init_def RECORD_TYPES_def)
  show "record_create scripted ''other.org'' [(''Type'', JStr ''BOGUS'')]
       \<lparr>self_zones = [(JStr ''example.com'', JInt 7)], sent = [], remote = [ok JNull]\<rparr> =
     Some (Inl BunnyClientNotFound, [(''Type'', JStr ''BOGUS'')],
           \<lparr>self_zones = [(JStr ''example.com'', JInt 7)], sent = [], remote = [ok JNull]\<rparr>)"
    by (simp add: record_create_def get_zone_id_cached)
qed

text \<open>
  Claim C3, as the code has it. The payload has no \<^verbatim>\<open>Type\<close> (or \<^verbatim>\<open>None\<close>), or a string
  that is not a key of \<^verbatim>\<open>RECORD_TYPES\<close>. If the dictionary is loaded and resolves the zone
  name, create record raises the validation error and the world is unchanged: no request at
  all. In any world, if the call returns, it returns an exception, the caller's payload is
  unchanged and everything sent during the call is a listing request: the create request is
  never sent.
\<close>

theorem record_create_rejects_bad_type:
  assumes bad: "payload_get record_data ''Type'' = JNull \<or>
                payload_get record_data ''Type'' = JStr s \<and> map_of RECORD_TYPES s = None"
  shows "(self_zones w \<noteq> [] \<and> truthy (dict_get (self_zones w) (JStr zone_name)) \<longrightarrow>
            record_create serve zone_name record_data w =
              Some (Inl (if truthy (payload_get record_data ''Type'')
                         then BunnyClientException ''Unsupported resource record type: ''
                                (Some (payload_get record_data ''Type''))
                         else BunnyClientException ''No resource record type specified.'' None),
                    record_data, w)) \<and>
         (record_create serve zone_name record_data w = Some (r, d, w') \<longrightarrow>
            (\<exists>e. r = Inl e) \<and> d = record_data \<and>
            (\<exists>rqs. sent w' = sent w @ rqs \<and> list_all is_listing rqs))"
proof (intro conjI impI)
  assume "self_zones w \<noteq> [] \<and> truthy (dict_get (self_zones w) (JStr zone_name))"
  then have "get_zone_id serve zone_name w =
               Some (Inr (dict_get (self_zones w) (JStr zone_name)), w)"
    by (simp add: get_zone_id_cached)
  then show "record_create serve zone_name record_data w =
              Some (Inl (if truthy (payload_get record_data ''Type'')
                         then BunnyClientException ''Unsupported resource record type: ''
                                (Some (payload_get record_data ''Type''))
                         else BunnyClientException ''No resource record type specified.'' None),
                    record_data, w)"
    by (simp add: record_create_resolved handle_record_data_create_rejects[OF bad])
next
  assume u: "record_create serve zone_name record_data w = Some (r, d, w')"
  then obtain g where g: "get_zone_id serve zone_name w = Some (g, w')"
      and rd: "(\<exists>e. r = Inl e) \<and> d = record_data"
    by (auto simp: record_create_def handle_record_data_create_rejects[OF bad]
             split: option.splits sum.splits prod.splits)
  from rd show "\<exists>e. r = Inl e" "d = record_data" by simp_all
  from get_zone_id_sent[OF g] show "\<exists>rqs. sent w' = sent w @ rqs \<and> list_all is_listing rqs" .
qed

theorem record_create_rejects_bad_type_witness:
  "record_create scripted ''example.com'' [(''Type'', JStr ''BOGUS'')]
       \<lparr>self_zones = [(JStr ''example.com'', JInt 7)], sent = [], remote = [ok JNull]\<rparr> =
     Some (Inl (BunnyClientException ''Unsupported resource record type: ''
                  (Some (JStr ''BOGUS''))),
           [(''Type'', JStr ''BOGUS'')],
           \<lparr>self_zones = [(JStr ''example.com'', JInt 7)], sent = [], remote = [ok JNull]\<rparr>) \<and>
   record_create scripted ''example.com'' [(''Name'', JStr ''www'')]
       \<lparr>self_zones = [(JStr ''example.com'', JInt 7)], sent = [], remote = [ok JNull]\<rparr> =
     Some (Inl (BunnyClientException ''No resource record type specified.'' None),
           [(''Name'', JStr ''www'')],
           \<lparr>self_zones = [(JStr ''example.com'', JInt 7)], sent = [], remote = [ok JNull]\<rparr>) \<and>
   (\<exists>rqs. sent \<lparr>self_zones = [(JStr ''example.com'', JInt 7)], sent = [],
                 remote = [ok JNull]\<rparr> = [] @ rqs \<and> list_all is_listing rqs)"
proof -
  let ?w = "\<lparr>self_zones = [(JStr ''example.com'', JInt 7)], sent = [], remote = [ok JNull]\<rparr>"
  have bad: "payload_get [(''Type'', JStr ''BOGUS'')] ''Type'' = JNull \<or>
             payload_get [(''Type'', JStr ''BOGUS'')] ''Type'' = JStr ''BOGUS'' \<and>
             map_of RECORD_TYPES ''BOGUS'' = None"
    by (simp add: payload_get_def RECORD_TYPES_def)
  have none: "payload_get [(''Name'', JStr ''www'')] ''Type'' = JNull \<or>
              payload_get [(''Name'', JStr ''www'')] ''Type'' = JStr ''BOGUS'' \<and>
              map_of RECORD_TYPES ''BOGUS'' = None"
    by (simp add: payload_get_def)
  have c: "self_zones ?w \<noteq> [] \<and> truthy (dict_get (self_zones ?w) (JStr ''example.com''))"
    by simp
  note t = record_create_rejects_bad_type[OF bad, of ?w "''example.com''" scripted]
  from t c have u: "record_create scripted ''example.com'' [(''Type'', JStr ''BOGUS'')] ?w =
     Some (Inl (BunnyClientException ''Unsupported resource record type: ''
                  (Some (JStr ''BOGUS''))),
           [(''Type'', JStr ''BOGUS'')], ?w)"
    by (simp add: payload_get_def)
  from record_create_rejects_bad_type[OF none, of ?w "''example.com''" scripted] c
  have v: "record_create scripted ''example.com'' [(''Name'', JStr ''www'')] ?w =
     Some (Inl (BunnyClientException ''No resource record type specified.'' None),
           [(''Name'', JStr ''www'')], ?w)"
    by (simp add: payload_get_def)
  from u v t[of _ _ ?w] show ?thesis by simp
qed

subsection \<open>List zones twice\<close>


lemma zones_loaded:
  "self_zones w \<noteq> [] \<Longrightarrow> zones serve w = Some (Inr (map fst (self_zones w)), w)"
  by (simp add: zones_def)

lemma zones_sent:
  assumes "zones serve w = Some (r, w1)"
  shows "\<exists>rqs. sent w1 = sent w @ rqs \<and> list_all is_listing rqs"
proof (cases "self_zones w = []")
  case False
  with assms have "w1 = w" by (simp add: zones_loaded)
  then show ?thesis by simp
next
  case True
  with assms obtain u where "cache_zones_loop serve 1 w = Some (u, w1)"
    by (auto simp: zones_def cache_zones_def split: option.splits sum.splits prod.splits)
  from cache_zones_loop_sent[OF this] show ?thesis by simp
qed

lemma cache_zones_scripted_one_page:
  "cache_zones scripted (init [ok (listing zs False)]) =
     Some (Inr (), \<lparr>self_zones = snd (store_zones
                       (map (\<lambda>z. JObj [(''Domain'', JStr (fst z)), (''Id'', snd z)]) zs) []),
                    sent = [listing_request 1], remote = []\<rparr>) \<or>
   fst (store_zones (map (\<lambda>z. JObj [(''Domain'', JStr (fst z)), (''Id'', snd z)]) zs) []) \<noteq> Inr ()"
  unfolding cache_zones_def
  by (subst cache_zones_loop.simps)
     (auto simp: init_def request_def raise_for_status_def ok_def listing_def response_json_def
        cache_page_def eq_True_def listing_request_def split: prod.splits sum.splits)

text \<open>
  Claim C4 says that, for every provider state, a second list zones does not reach the
  network. Against a provider that hosts no zone the first call loads an empty listing, the
  dictionary stays empty, and the second call sends the listing request again: an empty
  dictionary is the only sign the client has that nothing was loaded.
\<close>

theorem zones_twice_empty_provider_counterexample:
  "zones hosting (init []) =
     Some (Inr [], \<lparr>self_zones = [], sent = [listing_request 1], remote = []\<rparr>) \<and>
   zones hosting \<lparr>self_zones = [], sent = [listing_request 1], remote = []\<rparr> =
     Some (Inr [], \<lparr>self_zones = [], sent = [listing_request 1, listing_request 1],
                    remote = []\<rparr>)"
proof -
  have "cache_zones hosting \<lparr>self_zones = [], sent = rqs, remote = []\<rparr> =
          Some (Inr (), \<lparr>self_zones = [], sent = rqs @ [listing_request 1], remote = []\<rparr>)"
    for rqs
    unfolding cache_zones_def
    by (subst cache_zones_loop.simps)
       (simp add: request_def raise_for_status_def ok_def listing_def response_json_def
          cache_page_def eq_True_def listing_request_def hosting_def)
  from this[of "[]"] this[of "[listing_request 1]"] show ?thesis
    by (simp add: zones_def init_def)
qed

text \<open>
  Claim C4, as the code has it. When the first list zones returns at least one name, a second
  call returns the same names and leaves the world as it is: it sends nothing. What the
  first call sent are listing requests only.
\<close>

theorem zones_twice:
  assumes first: "zones serve w = Some (Inr names, w1)"
    and some: "names \<noteq> []"
  shows "zones serve w1 = Some (Inr names, w1) \<and>
         (\<exists>rqs. sent w1 = sent w @ rqs \<and> list_all is_listing rqs)"
proof -
  from first have "names = map fst (self_zones w1)"
    by (auto simp: zones_def split: option.splits sum.splits prod.splits if_splits)
  with some have "zones serve w1 = Some (Inr names, w1)"
    by (simp add: zones_loaded)
  with zones_sent[OF first] show ?thesis by simp
qed

theorem zones_twice_witness:
  "zones scripted (init [ok (listing [(''a.com'', JInt 1)] False)]) =
     Some (Inr [JStr ''a.com''],
           \<lparr>self_zones = [(JStr ''a.com'', JInt 1)], sent = [listing_request 1], remote = []\<rparr>) \<and>
   zones scripted
       \<lparr>self_zones = [(JStr ''a.com'', JInt 1)], sent = [listing_request 1], remote = []\<rparr> =
     Some (Inr [JStr ''a.com''],
           \<lparr>self_zones = [(JStr ''a.com'', JInt 1)], sent = [listing_request 1], remote = []\<rparr>)"
proof -
  let ?w = "init [ok (listing [(''a.com'', JInt 1)] False)]"
  let ?w1 = "\<lparr>self_zones = [(JStr ''a.com'', JInt 1)], sent = [listing_request 1],
              remote = ([] :: http_response list)\<rparr>"
  have "cache_zones scripted ?w = Some (Inr (), ?w1)"
    using cache_zones_scripted_one_page[of "[(''a.com'', JInt 1)]"]
    by (simp add: dict_setitem_def)
  then have first: "zones scripted ?w = Some (Inr [JStr ''a.com''], ?w1)"
    by (simp add: zones_def init_def)
  have some: "[JStr ''a.com''] \<noteq> []" by simp
  from zones_twice[OF first some] first show ?thesis by simp
qed

subsection \<open>Get zone after create zone\<close>

text \<open>
  Claim C9 says that get zone right after a successful create zone resolves the identifier
  from the dictionary and sends the zone-detail request. \<^verbatim>\<open>_get_zone_id\<close> tests
  \<^verbatim>\<open>not zone_id\<close>: when the provider answers the creation with the identifier 0, the entry
  is stored, and get zone raises \<^verbatim>\<open>BunnyClientNotFound\<close> without sending anything.
\<close>

theorem zone_create_Id_0_counterexample:
  "zone_create scripted ''example.com''
       (init [\<lparr>status_code = 201, body = Some (JObj [(''Id'', JInt 0)])\<rparr>, ok JNull]) =
     (Inr (JObj [(''Id'', JInt 0)]),
      \<lparr>self_zones = [(JStr ''example.com'', JInt 0)],
       sent = [\<lparr>rq_method = POST, rq_path = Dnszone, rq_params = None,
                rq_data = Some (JObj [(''Domain'', JStr ''example.com'')])\<rparr>],
       remote = [ok JNull]\<rparr>) \<and>
   zone scripted ''example.com''
       \<lparr>self_zones = [(JStr ''example.com'', JInt 0)],
        sent = [\<lparr>rq_method = POST, rq_path = Dnszone, rq_params = None,
                 rq_data = Some (JObj [(''Domain'', JStr ''example.com'')])\<rparr>],
        remote = [ok JNull]\<rparr> =
     Some (Inl BunnyClientNotFound,
           \<lparr>self_zones = [(JStr ''example.com'', JInt 0)],
            sent = [\<lparr>rq_method = POST, rq_path = Dnszone, rq_params = None,
                     rq_data = Some (JObj [(''Domain'', JStr ''example.com'')])\<rparr>],
            remote = [ok JNull]\<rparr>)"
  by (simp add: zone_create_def zone_def get_zone_id_cached init_def request_def
        raise_for_status_def response_json_def update_zones_cache_def)

text \<open>
  Claim C9, as the code has it. After a successful create zone whose response carries a
  truthy \<^verbatim>\<open>Id\<close>, the dictionary is the old one with that identifier stored under the name
  (no reload), the name resolves to it without any request, and get zone sends exactly one
  request, the zone-detail request for that identifier.
\<close>

theorem zone_after_zone_create:
  assumes created: "zone_create serve zone_name w = (Inr r, w1)"
    and id: "getitem r ''Id'' = Inr zone_id"
    and nonzero: "truthy zone_id"
  shows "self_zones w1 = dict_set (JStr zone_name) zone_id (self_zones w) \<and>
         get_zone_id serve zone_name w1 = Some (Inr zone_id, w1) \<and>
         (\<exists>res w2. zone serve zone_name w1 = Some (res, w2) \<and>
            sent w2 = sent w1 @
              [\<lparr>rq_method = GET, rq_path = Dnszone_id zone_id, rq_params = None,
                rq_data = None\<rparr>])"
proof -
  let ?q = "request serve POST Dnszone None (Some (JObj [(''Domain'', JStr zone_name)])) w"
  from created id have "w1 = update_zones_cache zone_name zone_id (snd ?q)"
    by (auto simp: zone_create_def split: prod.splits sum.splits)
  then have c: "self_zones w1 = dict_set (JStr zone_name) zone_id (self_zones w)"
    by (simp add: update_zones_cache_def request_self_zones)
  then have "self_zones w1 \<noteq> []" "dict_get (self_zones w1) (JStr zone_name) = zone_id"
    by (simp_all add: dict_set_not_empty dict_get_dict_set)
  with nonzero have g: "get_zone_id serve zone_name w1 = Some (Inr zone_id, w1)"
    by (simp add: get_zone_id_cached)
  let ?d = "request serve GET (Dnszone_id zone_id) None None w1"
  have "zone serve zone_name w1 =
          Some (case fst ?d of Inl e \<Rightarrow> Inl e | Inr r \<Rightarrow> response_json r, snd ?d)"
    by (simp add: zone_def g split: prod.splits sum.splits)
  with c g request_sent[of serve GET "Dnszone_id zone_id" None None w1] show ?thesis
    by simp
qed

theorem zone_after_zone_create_witness:
  "\<exists>res w2.
     zone scripted ''example.com''
       \<lparr>self_zones = [(JStr ''example.com'', JInt 7)],
        sent = [\<lparr>rq_method = POST, rq_path = Dnszone, rq_params = None,
                 rq_data = Some (JObj [(''Domain'', JStr ''example.com'')])\<rparr>],
        remote = [ok JNull]\<rparr> = Some (res, w2) \<and>
     sent w2 =
       [\<lparr>rq_method = POST, rq_path = Dnszone, rq_params = None,
         rq_data = Some (JObj [(''Domain'', JStr ''example.com'')])\<rparr>,
        \<lparr>rq_method = GET, rq_path = Dnszone_id (JInt 7), rq_params = None, rq_data = None\<rparr>]"
proof -
  let ?w = "init [\<lparr>status_code = 201, body = Some (JObj [(''Id'', JInt 7)])\<rparr>, ok JNull]"
  let ?w1 = "\<lparr>self_zones = [(JStr ''example.com'', JInt 7)],
        sent = [\<lparr>rq_method = POST, rq_path = Dnszone, rq_params = None,
                 rq_data = Some (JObj [(''Domain'', JStr ''example.com'')])\<rparr>],
        remote = [ok JNull]\<rparr>"
  have created: "zone_create scripted ''example.com'' ?w = (Inr (JObj [(''Id'', JInt 7)]), ?w1)"
    by (simp add: zone_create_def init_def request_def raise_for_status_def response_json_def
          update_zones_cache_def)
  have id: "getitem (JObj [(''Id'', JInt 7)]) ''Id'' = Inr (JInt 7)" by simp
  have nonzero: "truthy (JInt 7)" by simp
  from zone_after_zone_create[OF created id nonzero]
  have "\<exists>res w2. zone scripted ''example.com'' ?w1 = Some (res, w2) \<and>
          sent w2 = sent ?w1 @
            [\<lparr>rq_method = GET, rq_path = Dnszone_id (JInt 7), rq_params = None,
              rq_data = None\<rparr>]"
    by blast
  then show ?thesis by simp
qed

subsection \<open>The dictionary as a snapshot\<close>

text \<open>
  Claim C1 asks that a dictionary that is not empty be a complete snapshot, so that a miss
  means the zone does not exist. The code breaks this when create zone is the first call of
  a client. Here the provider hosts \<^verbatim>\<open>a.com\<close>; the client creates \<^verbatim>\<open>b.com\<close>, which stores
  the single entry for \<^verbatim>\<open>b.com\<close> in the empty dictionary. From then on list zones returns
  \<^verbatim>\<open>b.com\<close> alone and get zone raises \<^verbatim>\<open>BunnyClientNotFound\<close> for \<^verbatim>\<open>a.com\<close>, both
  without asking the provider, although a fresh client lists both zones from the same
  provider.
\<close>

theorem zone_create_on_empty_cache_hides_zones:
  "zone_create hosting ''b.com'' (init [(''a.com'', 1)]) =
     (Inr (JObj [(''Id'', JInt 2), (''Domain'', JStr ''b.com'')]),
      \<lparr>self_zones = [(JStr ''b.com'', JInt 2)],
       sent = [\<lparr>rq_method = POST, rq_path = Dnszone, rq_params = None,
                rq_data = Some (JObj [(''Domain'', JStr ''b.com'')])\<rparr>],
       remote = [(''a.com'', 1), (''b.com'', 2)]\<rparr>) \<and>
   zones hosting
       \<lparr>self_zones = [(JStr ''b.com'', JInt 2)],
        sent = [\<lparr>rq_method = POST, rq_path = Dnszone, rq_params = None,
                 rq_data = Some (JObj [(''Domain'', JStr ''b.com'')])\<rparr>],
        remote = [(''a.com'', 1), (''b.com'', 2)]\<rparr> =
     Some (Inr [JStr ''b.com''],
           \<lparr>self_zones = [(JStr ''b.com'', JInt 2)],
            sent = [\<lparr>rq_method = POST, rq_path = Dnszone, rq_params = None,
                     rq_data = Some (JObj [(''Domain'', JStr ''b.com'')])\<rparr>],
            remote = [(''a.com'', 1), (''b.com'', 2)]\<rparr>) \<and>
   zone hosting ''a.com''
       \<lparr>self_zones = [(JStr ''b.com'', JInt 2)],
        sent = [\<lparr>rq_method = POST, rq_path = Dnszone, rq_params = None,
                 rq_data = Some (JObj [(''Domain'', JStr ''b.com'')])\<rparr>],
        remote = [(''a.com'', 1), (''b.com'', 2)]\<rparr> =
     Some (Inl BunnyClientNotFound,
           \<lparr>self_zones = [(JStr ''b.com'', JInt 2)],
            sent = [\<lparr>rq_method = POST, rq_path = Dnszone, rq_params = None,
                     rq_data = Some (JObj [(''Domain'', JStr ''b.com'')])\<rparr>],
            remote = [(''a.com'', 1), (''b.com'', 2)]\<rparr>) \<and>
   zones hosting (init [(''a.com'', 1), (''b.com'', 2)]) =
     Some (Inr [JStr ''a.com'', JStr ''b.com''],
           \<lparr>self_zones = [(JStr ''a.com'', JInt 1), (JStr ''b.com'', JInt 2)],
            sent = [listing_request 1],
            remote = [(''a.com'', 1), (''b.com'', 2)]\<rparr>)"
proof (intro conjI)
  show "zone_create hosting ''b.com'' (init [(''a.com'', 1)]) =
     (Inr (JObj [(''Id'', JInt 2), (''Domain'', JStr ''b.com'')]),
      \<lparr>self_zones = [(JStr ''b.com'', JInt 2)],
       sent = [\<lparr>rq_method = POST, rq_path = Dnszone, rq_params = None,
                rq_data = Some (JObj [(''Domain'', JStr ''b.com'')])\<rparr>],
       remote = [(''a.com'', 1), (''b.com'', 2)]\<rparr>)"
    by (simp add: zone_create_def init_def request_def raise_for_status_def response_json_def
          update_zones_cache_def hosting_def)
  show "zones hosting
       \<lparr>self_zones = [(JStr ''b.com'', JInt 2)],
        sent = [\<lparr>rq_method = POST, rq_path = Dnszone, rq_params = None,
                 rq_data = Some (JObj [(''Domain'', JStr ''b.com'')])\<rparr>],
        remote = [(''a.com'', 1), (''b.com'', 2)]\<rparr> =
     Some (Inr [JStr ''b.com''],
           \<lparr>self_zones = [(JStr ''b.com'', JInt 2)],
            sent = [\<lparr>rq_method = POST, rq_path = Dnszone, rq_params = None,
                     rq_data = Some (JObj [(''Domain'', JStr ''b.com'')])\<rparr>],
            remote = [(''a.com'', 1), (''b.com'', 2)]\<rparr>)"
    by (simp add: zones_loaded)
  show "zone hosting ''a.com''
       \<lparr>self_zones = [(JStr ''b.com'', JInt 2)],
        sent = [\<lparr>rq_method = POST, rq_path = Dnszone, rq_params = None,
                 rq_data = Some (JObj [(''Domain'', JStr ''b.com'')])\<rparr>],
        remote = [(''a.com'', 1), (''b.com'', 2)]\<rparr> =
     Some (Inl BunnyClientNotFound,
           \<lparr>self_zones = [(JStr ''b.com'', JInt 2)],
            sent = [\<lparr>rq_method = POST, rq_path = Dnszone, rq_params = None,
                     rq_data = Some (JObj [(''Domain'', JStr ''b.com'')])\<rparr>],
            remote = [(''a.com'', 1), (''b.com'', 2)]\<rparr>)"
    by (simp add: zone_def get_zone_id_cached)
  have "cache_zones hosting (init [(''a.com'', 1), (''b.com'', 2)]) =
          Some (Inr (), \<lparr>self_zones = [(JStr ''a.com'', JInt 1), (JStr ''b.com'', JInt 2)],
                         sent = [listing_request 1],
                         remote = [(''a.com'', 1), (''b.com'', 2)]\<rparr>)"
    unfolding cache_zones_def
    by (subst cache_zones_loop.simps)
       (simp add: init_def request_def raise_for_status_def ok_def listing_def response_json_def
          cache_page_def dict_setitem_def eq_True_def listing_request_def hosting_def)
  then show "zones hosting (init [(''a.com'', 1), (''b.com'', 2)]) =
     Some (Inr [JStr ''a.com'', JStr ''b.com''],
           \<lparr>self_zones = [(JStr ''a.com'', JInt 1), (JStr ''b.com'', JInt 2)],
            sent = [listing_request 1],
            remote = [(''a.com'', 1), (''b.com'', 2)]\<rparr>)"
    by (simp add: zones_def init_def)
qed

subsection \<open>Status codes and exceptions\<close>

lemma request_raises:
  assumes "map_option status_code
             (fst (serve (remote w)
                \<lparr>rq_method = m, rq_path = p, rq_params = ps, rq_data = d\<rparr>)) = Some s"
    and "400 \<le> s" "s < 600"
  shows "fst (request serve m p ps d w) =
           Inl (if s = 401 then BunnyClientUnauthorized
                else if s = 404 then BunnyClientNotFound else HTTPError s)"
  using assms by (auto simp: request_def Let_def raise_for_status_def split: option.splits)

lemma request_returns:
  assumes "fst (serve (remote w) rq) = Some resp"
    and "status_code resp < 400 \<or> 600 \<le> status_code resp"
  shows "fst (request serve (rq_method rq) (rq_path rq) (rq_params rq) (rq_data rq) w) = Inr resp"
  using assms by (cases rq) (auto simp: request_def Let_def raise_for_status_def)

lemma cache_zones_raises:
  assumes "fst (request serve GET Dnszone (Some [(''page'', 1)]) None w) = Inl e"
  shows "cache_zones serve w =
           Some (Inl e, snd (request serve GET Dnszone (Some [(''page'', 1)]) None w))"
proof (cases "request serve GET Dnszone (Some [(''page'', 1)]) None w")
  case (Pair r w1)
  with assms have "r = Inl e" by simp
  with Pair show ?thesis
    unfolding cache_zones_def by (subst cache_zones_loop.simps) simp
qed

text \<open>
  Claim C5 says that every status outside 2xx other than 401 and 404 raises the generic
  exception of the client's own three exceptions. A status 500 raises the \<^verbatim>\<open>HTTPError\<close> of
  the requests library, which is not a \<^verbatim>\<open>BunnyClientException\<close>; a status 302 raises
  nothing, and create zone goes on with the body as after a success.
\<close>

theorem status_500_and_302_counterexample:
  "zone_create scripted ''example.com'' (init [\<lparr>status_code = 500, body = None\<rparr>]) =
     (Inl (HTTPError 500),
      \<lparr>self_zones = [],
       sent = [\<lparr>rq_method = POST, rq_path = Dnszone, rq_params = None,
                rq_data = Some (JObj [(''Domain'', JStr ''example.com'')])\<rparr>],
       remote = []\<rparr>) \<and>
   \<not> is_BunnyClientException (HTTPError 500) \<and>
   zone_create scripted ''example.com''
       (init [\<lparr>status_code = 302, body = Some (JObj [(''Id'', JInt 7)])\<rparr>]) =
     (Inr (JObj [(''Id'', JInt 7)]),
      \<lparr>self_zones = [(JStr ''example.com'', JInt 7)],
       sent = [\<lparr>rq_method = POST, rq_path = Dnszone, rq_params = None,
                rq_data = Some (JObj [(''Domain'', JStr ''example.com'')])\<rparr>],
       remote = []\<rparr>)"
  by (simp add: zone_create_def init_def request_def raise_for_status_def response_json_def
        update_zones_cache_def)

text \<open>
  Claim C5, as the code has it. Let \<open>s\<close> be a status from 400 to 599 and \<open>e\<close> the exception
  \<^verbatim>\<open>_request\<close> raises for it: \<^verbatim>\<open>BunnyClientUnauthorized\<close> for 401,
  \<^verbatim>\<open>BunnyClientNotFound\<close> for 404, \<^verbatim>\<open>HTTPError\<close> otherwise. Each of the six operations
  raises \<open>e\<close> when the provider answers its request with status \<open>s\<close>: the first listing
  request (list zones, and the four operations that resolve a zone name, on an empty
  dictionary), the zone-detail request, the creation of a zone, and the creation, update and
  deletion of a record once the zone name is resolved and the payload accepted. Outside 401
  and 404 the exception \<open>e\<close> is not a \<^verbatim>\<open>BunnyClientException\<close>. A response whose status is
  below 400 or above 599 is returned by \<^verbatim>\<open>_request\<close> without an exception.
\<close>

theorem status_exceptions:
  assumes range: "400 \<le> s" "s < 600"
    and e: "e = (if s = 401 then BunnyClientUnauthorized
                 else if s = 404 then BunnyClientNotFound else HTTPError s)"
  shows
    "(self_zones w = [] \<and>
      map_option status_code (fst (serve (remote w) (listing_request 1))) = Some s \<longrightarrow>
        (\<exists>w'. zones serve w = Some (Inl e, w') \<and>
              zone serve zone_name w = Some (Inl e, w') \<and>
              record_create serve zone_name record_data w = Some (Inl e, record_data, w') \<and>
              record_update serve zone_name record_id record_data w =
                Some (Inl e, record_data, w') \<and>
              record_delete serve zone_name record_id w = Some (Inl e, w'))) \<and>
     (get_zone_id serve zone_name w = Some (Inr zone_id, w1) \<and>
      map_option status_code
        (fst (serve (remote w1)
           \<lparr>rq_method = GET, rq_path = Dnszone_id zone_id, rq_params = None,
            rq_data = None\<rparr>)) = Some s \<longrightarrow>
        (\<exists>w'. zone serve zone_name w = Some (Inl e, w'))) \<and>
     (map_option status_code
        (fst (serve (remote w)
           \<lparr>rq_method = POST, rq_path = Dnszone, rq_params = None,
            rq_data = Some (JObj [(''Domain'', JStr zone_name)])\<rparr>)) = Some s \<longrightarrow>
        (\<exists>w'. zone_create serve zone_name w = (Inl e, w'))) \<and>
     (get_zone_id serve zone_name w = Some (Inr zone_id, w1) \<and>
      handle_record_data record_data False = Inr d \<and>
      map_option status_code
        (fst (serve (remote w1)
           \<lparr>rq_method = PUT, rq_path = Dnszone_records zone_id, rq_params = None,
            rq_data = Some (JObj d)\<rparr>)) = Some s \<longrightarrow>
        (\<exists>w'. record_create serve zone_name record_data w = Some (Inl e, d, w'))) \<and>
     (get_zone_id serve zone_name w = Some (Inr zone_id, w1) \<and>
      handle_record_data record_data True = Inr d \<and>
      map_option status_code
        (fst (serve (remote w1)
           \<lparr>rq_method = POST, rq_path = Dnszone_record zone_id record_id, rq_params = None,
            rq_data = Some (JObj d)\<rparr>)) = Some s \<longrightarrow>
        (\<exists>w'. record_update serve zone_name record_id record_data w = Some (Inl e, d, w'))) \<and>
     (get_zone_id serve zone_name w = Some (Inr zone_id, w1) \<and>
      map_option status_code
        (fst (serve (remote w1)
           \<lparr>rq_method = DELETE, rq_path = Dnszone_record zone_id record_id, rq_params = None,
            rq_data = None\<rparr>)) = Some s \<longrightarrow>
        (\<exists>w'. record_delete serve zone_name record_id w = Some (Inl e, w'))) \<and>
     (s \<noteq> 401 \<and> s \<noteq> 404 \<longrightarrow> \<not> is_BunnyClientException e) \<and>
     (fst (serve (remote w) rq) = Some resp \<and>
      (status_code resp < 400 \<or> 600 \<le> status_code resp) \<longrightarrow>
        fst (request serve (rq_method rq) (rq_path rq) (rq_params rq) (rq_data rq) w) =
          Inr resp)"
proof (intro conjI impI)
  assume a: "self_zones w = [] \<and>
      map_option status_code (fst (serve (remote w) (listing_request 1))) = Some s"
  let ?q = "request serve GET Dnszone (Some [(''page'', 1)]) None w"
  from a have "fst ?q = Inl e"
    unfolding e listing_request_def by (intro request_raises range) simp
  then have c: "cache_zones serve w = Some (Inl e, snd ?q)"
    by (rule cache_zones_raises)
  with a have g: "get_zone_id serve zone_name w = Some (Inl e, snd ?q)"
    by (simp add: get_zone_id_def)
  from a c g show "\<exists>w'. zones serve w = Some (Inl e, w') \<and>
              zone serve zone_name w = Some (Inl e, w') \<and>
              record_create serve zone_name record_data w = Some (Inl e, record_data, w') \<and>
              record_update serve zone_name record_id record_data w =
                Some (Inl e, record_data, w') \<and>
              record_delete serve zone_name record_id w = Some (Inl e, w')"
    by (simp add: zones_def zone_def record_create_def record_update_def record_delete_def)
next
  assume a: "get_zone_id serve zone_name w = Some (Inr zone_id, w1) \<and>
      map_option status_code
        (fst (serve (remote w1)
           \<lparr>rq_method = GET, rq_path = Dnszone_id zone_id, rq_params = None,
            rq_data = None\<rparr>)) = Some s"
  then have "fst (request serve GET (Dnszone_id zone_id) None None w1) = Inl e"
    unfolding e by (intro request_raises range) simp
  with a show "\<exists>w'. zone serve zone_name w = Some (Inl e, w')"
    by (auto simp: zone_def split: prod.splits sum.splits)
next
  assume a: "map_option status_code
        (fst (serve (remote w)
           \<lparr>rq_method = POST, rq_path = Dnszone, rq_params = None,
            rq_data = Some (JObj [(''Domain'', JStr zone_name)])\<rparr>)) = Some s"
  then have "fst (request serve POST Dnszone None
                    (Some (JObj [(''Domain'', JStr zone_name)])) w) = Inl e"
    unfolding e by (intro request_raises range)
  then show "\<exists>w'. zone_create serve zone_name w = (Inl e, w')"
    by (auto simp: zone_create_def split: prod.splits sum.splits)
next
  assume a: "get_zone_id serve zone_name w = Some (Inr zone_id, w1) \<and>
      handle_record_data record_data False = Inr d \<and>
      map_option status_code
        (fst (serve (remote w1)
           \<lparr>rq_method = PUT, rq_path = Dnszone_records zone_id, rq_params = None,
            rq_data = Some (JObj d)\<rparr>)) = Some s"
  then have "fst (request serve PUT (Dnszone_records zone_id) None (Some (JObj d)) w1) = Inl e"
    unfolding e by (intro request_raises range) simp
  with a show "\<exists>w'. record_create serve zone_name record_data w = Some (Inl e, d, w')"
    by (auto simp: record_create_def split: prod.splits sum.splits)
next
  assume a: "get_zone_id serve zone_name w = Some (Inr zone_id, w1) \<and>
      handle_record_data record_data True = Inr d \<and>
      map_option status_code
        (fst (serve (remote w1)
           \<lparr>rq_method = POST, rq_path = Dnszone_record zone_id record_id, rq_params = None,
            rq_data = Some (JObj d)\<rparr>)) = Some s"
  then have "fst (request serve POST (Dnszone_record zone_id record_id) None
                    (Some (JObj d)) w1) = Inl e"
    unfolding e by (intro request_raises range) simp
  with a show "\<exists>w'. record_update serve zone_name record_id record_data w =
                 Some (Inl e, d, w')"
    by (auto simp: record_update_def split: prod.splits sum.splits)
next
  assume a: "get_zone_id serve zone_name w = Some (Inr zone_id, w1) \<and>
      map_option status_code
        (fst (serve (remote w1)
           \<lparr>rq_method = DELETE, rq_path = Dnszone_record zone_id record_id, rq_params = None,
            rq_data = None\<rparr>)) = Some s"
  then have "fst (request serve DELETE (Dnszone_record zone_id record_id) None None w1) =
               Inl e"
    unfolding e by (intro request_raises range) simp
  with a show "\<exists>w'. record_delete serve zone_name record_id w = Some (Inl e, w')"
    by (cases "request serve DELETE (Dnszone_record zone_id record_id) None None w1")
       (simp add: record_delete_def)
next
  assume "s \<noteq> 401 \<and> s \<noteq> 404"
  then show "\<not> is_BunnyClientException e" by (simp add: e)
next
  assume "fst (serve (remote w) rq) = Some resp \<and>
      (status_code resp < 400 \<or> 600 \<le> status_code resp)"
  then show "fst (request serve (rq_method rq) (rq_path rq) (rq_params rq) (rq_data rq) w) =
          Inr resp"
    by (intro request_returns) simp_all
qed

theorem status_exceptions_witness:
  "(\<exists>w'. zones scripted (init [\<lparr>status_code = 401, body = None\<rparr>]) =
           Some (Inl BunnyClientUnauthorized, w')) \<and>
   (\<exists>w'. zone scripted ''example.com''
            \<lparr>self_zones = [(JStr ''example.com'', JInt 7)], sent = [],
             remote = [\<lparr>status_code = 404, body = None\<rparr>]\<rparr> =
           Some (Inl BunnyClientNotFound, w')) \<and>
   (\<exists>w'. zone_create scripted ''example.com'' (init [\<lparr>status_code = 500, body = None\<rparr>]) =
           (Inl (HTTPError 500), w')) \<and>
   (\<exists>w'. record_create scripted ''example.com'' [(''Type'', JStr ''A'')]
            \<lparr>self_zones = [(JStr ''example.com'', JInt 7)], sent = [],
             remote = [\<lparr>status_code = 401, body = None\<rparr>]\<rparr> =
           Some (Inl BunnyClientUnauthorized, [(''Type'', JInt 0)], w')) \<and>
   (\<exists>w'. record_update scripted ''example.com'' (JInt 9) [(''Ttl'', JInt 60)]
            \<lparr>self_zones = [(JStr ''example.com'', JInt 7)], sent = [],
             remote = [\<lparr>status_code = 404, body = None\<rparr>]\<rparr> =
           Some (Inl BunnyClientNotFound, [(''Ttl'', JInt 60)], w')) \<and>
   (\<exists>w'. record_delete scripted ''example.com'' (JInt 9)
            \<lparr>self_zones = [(JStr ''example.com'', JInt 7)], sent = [],
             remote = [\<lparr>status_code = 503, body = None\<rparr>]\<rparr> =
           Some (Inl (HTTPError 503), w'))"
proof -
  let ?c = "[(JStr ''example.com'', JInt 7)]"
  let ?W = "\<lambda>s. \<lparr>self_zones = ?c, sent = [],
                   remote = [\<lparr>status_code = s, body = None\<rparr>]\<rparr>"
  have g: "get_zone_id scripted ''example.com'' (?W s) = Some (Inr (JInt 7), ?W s)" for s
    by (simp add: get_zone_id_cached)
  note u = status_exceptions[of 401 BunnyClientUnauthorized, simplified]
  note n = status_exceptions[of 404 BunnyClientNotFound, simplified]
  note h = status_exceptions[of 500 "HTTPError 500", simplified]
  note k = status_exceptions[of 503 "HTTPError 503", simplified]
  have 1: "\<exists>w'. zones scripted (init [\<lparr>status_code = 401, body = None\<rparr>]) =
           Some (Inl BunnyClientUnauthorized, w')"
    using u[THEN conjunct1, of "init [\<lparr>status_code = 401, body = None\<rparr>]" scripted
              "''example.com''" "[]" "JInt 9"]
    by (auto simp: init_def)
  have 2: "\<exists>w'. zone scripted ''example.com'' (?W 404) = Some (Inl BunnyClientNotFound, w')"
    using n[THEN conjunct2, THEN conjunct1, of scripted "''example.com''" "?W 404" "JInt 7" "?W 404"]
    by (simp add: g)
  have 3: "\<exists>w'. zone_create scripted ''example.com''
                  (init [\<lparr>status_code = 500, body = None\<rparr>]) = (Inl (HTTPError 500), w')"
    using h[THEN conjunct2, THEN conjunct2, THEN conjunct1,
            of scripted "init [\<lparr>status_code = 500, body = None\<rparr>]" "''example.com''"]
    by (simp add: init_def)
  have 4: "\<exists>w'. record_create scripted ''example.com'' [(''Type'', JStr ''A'')] (?W 401) =
             Some (Inl BunnyClientUnauthorized, [(''Type'', JInt 0)], w')"
    using u[THEN conjunct2, THEN conjunct2, THEN conjunct2, THEN conjunct1,
            of scripted "''example.com''" "?W 401" "JInt 7" "?W 401"
               "[(''Type'', JStr ''A'')]" "[(''Type'', JInt 0)]"]
    by (simp add: g handle_record_data_def payload_get_def RECORD_TYPES_def)
  have 5: "\<exists>w'. record_update scripted ''example.com'' (JInt 9) [(''Ttl'', JInt 60)] (?W 404) =
             Some (Inl BunnyClientNotFound, [(''Ttl'', JInt 60)], w')"
    using n[THEN conjunct2, THEN conjunct2, THEN conjunct2, THEN conjunct2, THEN conjunct1,
            of scripted "''example.com''" "?W 404" "JInt 7" "?W 404"
               "[(''Ttl'', JInt 60)]" "[(''Ttl'', JInt 60)]" "JInt 9"]
    by (simp add: g handle_record_data_def payload_get_def)
  have 6: "\<exists>w'. record_delete scripted ''example.com'' (JInt 9) (?W 503) =
             Some (Inl (HTTPError 503), w')"
    using k[THEN conjunct2, THEN conjunct2, THEN conjunct2, THEN conjunct2, THEN conjunct2,
            THEN conjunct1,
            of scripted "''example.com''" "?W 503" "JInt 7" "?W 503" "JInt 9"]
    by (simp add: g)
  from 1 2 3 4 5 6 show ?thesis by simp
qed

subsection \<open>Pagination\<close>

lemma store_zones_items:
  "list_all2 (\<lambda>z p. getitem z ''Domain'' = Inr (JStr (fst p)) \<and> getitem z ''Id'' = Inr (snd p))
     items zs \<Longrightarrow>
   store_zones items d = (Inr (), fold (\<lambda>p. dict_set (JStr (fst p)) (snd p)) zs d)"
proof (induction items zs arbitrary: d rule: list_all2_induct)
  case Nil
  then show ?case by simp
next
  case (Cons z p items zs)
  then show ?case by (simp add: dict_setitem_def)
qed

lemma cache_page_items:
  assumes "getitem r ''Items'' = Inr (JList items)"
    and "list_all2 (\<lambda>z p. getitem z ''Domain'' = Inr (JStr (fst p)) \<and>
                           getitem z ''Id'' = Inr (snd p)) items zs"
    and "getitem r ''HasMoreItems'' = Inr (JBool b)"
  shows "cache_page r d = (Inr b, fold (\<lambda>p. dict_set (JStr (fst p)) (snd p)) zs d)"
  using assms(1,3) by (simp add: cache_page_def store_zones_items[OF assms(2)] eq_True_def)

lemma request_success:
  assumes "serve (remote w) \<lparr>rq_method = m, rq_path = p, rq_params = ps, rq_data = d\<rparr> =
             (Some r, p')"
    and "200 \<le> status_code r" "status_code r < 300"
  shows "request serve m p ps d w =
           (Inr r, w\<lparr>sent := sent w @ [\<lparr>rq_method = m, rq_path = p, rq_params = ps,
                                           rq_data = d\<rparr>],
                     remote := p'\<rparr>)"
  using assms by (simp add: request_def Let_def raise_for_status_def)

lemma map_of_dict_set_JStr:
  "map_of (dict_set (JStr k) v d) (JStr n) = (if n = k then Some v else map_of d (JStr n))"
  by (simp add: dict_set_JStr update_conv')

lemma keys_dict_set_JStr: "fst ` set (dict_set (JStr k) v d) = insert (JStr k) (fst ` set d)"
  by (simp add: dict_set_JStr dom_update)

lemma map_of_fold_dict_set:
  "map_of (fold (\<lambda>p. dict_set (JStr (fst p)) (snd p)) zs d) (JStr n) =
     (case map_of (rev zs) n of None \<Rightarrow> map_of d (JStr n) | Some i \<Rightarrow> Some i)"
proof (induction zs arbitrary: d)
  case Nil
  then show ?case by simp
next
  case (Cons z zs)
  show ?case
    by (simp add: Cons.IH map_of_dict_set_JStr map_add_def split: option.splits)
qed

lemma keys_fold_dict_set:
  "fst ` set (fold (\<lambda>p. dict_set (JStr (fst p)) (snd p)) zs d) =
     fst ` set d \<union> JStr ` fst ` set zs"
proof (induction zs arbitrary: d)
  case Nil
  then show ?case by simp
next
  case (Cons z zs)
  show ?case by (simp add: Cons.IH keys_dict_set_JStr)
qed

lemma update_absent: "k \<notin> fst ` set d \<Longrightarrow> AList.update k v d = d @ [(k, v)]"
  by (induction d) auto

lemma fold_dict_set_distinct:
  "distinct (map fst zs) \<Longrightarrow> JStr ` fst ` set zs \<inter> fst ` set d = {} \<Longrightarrow>
   fold (\<lambda>p. dict_set (JStr (fst p)) (snd p)) zs d = d @ map (\<lambda>p. (JStr (fst p), snd p)) zs"
proof (induction zs arbitrary: d)
  case Nil
  then show ?case by simp
next
  case (Cons z zs)
  from Cons.prems have a: "JStr (fst z) \<notin> fst ` set d" by auto
  then have u: "dict_set (JStr (fst z)) (snd z) d = d @ [(JStr (fst z), snd z)]"
    by (simp add: dict_set_JStr update_absent)
  from Cons.prems have "distinct (map fst zs)"
    and "JStr ` fst ` set zs \<inter> fst ` set (d @ [(JStr (fst z), snd z)]) = {}"
    by auto
  from Cons.IH[OF this] u show ?case by simp
qed

text \<open>
  Claim C7. The dictionary is empty and the provider answers the listing request for page 1
  with a 2xx response whose \<^verbatim>\<open>Items\<close> carry the domains and identifiers \<open>zs1\<close> and whose
  \<^verbatim>\<open>HasMoreItems\<close> is true, then the one for page 2 with the pairs \<open>zs2\<close> and
  \<^verbatim>\<open>HasMoreItems\<close> false. Then list zones returns, having sent exactly the two listing
  requests, for page 1 and then page 2. The dictionary \<open>c\<close> it leaves (whose keys it returns)
  maps each name to the identifier listed last for it and has exactly the domains of the two
  pages as keys; when no domain is listed twice, its entries are exactly the pairs of page 1
  followed by those of page 2, so as a set the union of the pairs of both pages.
\<close>

theorem two_pages:
  assumes empty: "self_zones w = []"
    and page1: "serve (remote w) (listing_request 1) = (Some r1, p1)"
      "200 \<le> status_code r1" "status_code r1 < 300" "body r1 = Some j1"
      "getitem j1 ''Items'' = Inr (JList items1)"
      "list_all2 (\<lambda>z p. getitem z ''Domain'' = Inr (JStr (fst p)) \<and>
                         getitem z ''Id'' = Inr (snd p)) items1 zs1"
      "getitem j1 ''HasMoreItems'' = Inr (JBool True)"
    and page2: "serve p1 (listing_request 2) = (Some r2, p2)"
      "200 \<le> status_code r2" "status_code r2 < 300" "body r2 = Some j2"
      "getitem j2 ''Items'' = Inr (JList items2)"
      "list_all2 (\<lambda>z p. getitem z ''Domain'' = Inr (JStr (fst p)) \<and>
                         getitem z ''Id'' = Inr (snd p)) items2 zs2"
      "getitem j2 ''HasMoreItems'' = Inr (JBool False)"
  shows "\<exists>c. zones serve w =
               Some (Inr (map fst c),
                     \<lparr>self_zones = c,
                      sent = sent w @ [listing_request 1, listing_request 2],
                      remote = p2\<rparr>) \<and>
             (\<forall>n. map_of c (JStr n) = map_of (rev (zs1 @ zs2)) n) \<and>
             fst ` set c = JStr ` fst ` (set zs1 \<union> set zs2) \<and>
             (distinct (map fst (zs1 @ zs2)) \<longrightarrow>
                c = map (\<lambda>p. (JStr (fst p), snd p)) (zs1 @ zs2) \<and>
                set c = (\<lambda>p. (JStr (fst p), snd p)) ` (set zs1 \<union> set zs2))"
proof -
  let ?f = "\<lambda>p. dict_set (JStr (fst p)) (snd p)"
  let ?c1 = "fold ?f zs1 []"
  let ?c = "fold ?f zs2 (fold ?f zs1 [])"
  let ?w1 = "w\<lparr>sent := sent w @ [listing_request 1], remote := p1\<rparr>"
  let ?w1' = "?w1\<lparr>self_zones := ?c1\<rparr>"
  let ?w2 = "?w1'\<lparr>sent := sent ?w1' @ [listing_request 2], remote := p2\<rparr>"
  let ?w2' = "?w2\<lparr>self_zones := ?c\<rparr>"
  have q1: "request serve GET Dnszone (Some [(''page'', 1)]) None w = (Inr r1, ?w1)"
    using page1(1-3) by (simp add: request_success listing_request_def)
  have c1: "cache_page j1 (self_zones w) = (Inr True, ?c1)"
    using cache_page_items[OF page1(5-7)] empty by simp
  have q2: "request serve GET Dnszone (Some [(''page'', 2)]) None ?w1' = (Inr r2, ?w2)"
    using page2(1-3) by (simp add: request_success listing_request_def)
  have c2: "cache_page j2 ?c1 = (Inr False, ?c)"
    using cache_page_items[OF page2(5-7)] by simp
  have ce: "?c = fold ?f (zs1 @ zs2) []"
    by simp
  have l2: "cache_zones_loop serve 2 ?w1' = Some (Inr (), ?w2')"
    by (subst cache_zones_loop.simps)
       (simp add: q2 c2 response_json_def page2(4))
  have "cache_zones_loop serve 1 w = Some (Inr (), ?w2')"
    by (subst cache_zones_loop.simps)
       (simp add: q1 c1 response_json_def page1(4) l2)
  with empty have z: "zones serve w = Some (Inr (map fst ?c), ?w2')"
    by (simp add: zones_def cache_zones_def)
  have w: "?w2' = \<lparr>self_zones = ?c, sent = sent w @ [listing_request 1, listing_request 2],
                   remote = p2\<rparr>"
    by simp
  have m: "\<forall>n. map_of ?c (JStr n) = map_of (rev (zs1 @ zs2)) n"
    unfolding ce by (simp add: map_of_fold_dict_set del: fold_append rev_append split: option.splits)
  have k: "fst ` set ?c = JStr ` fst ` (set zs1 \<union> set zs2)"
    unfolding ce by (simp add: keys_fold_dict_set del: fold_append)
  have d: "distinct (map fst (zs1 @ zs2)) \<longrightarrow>
             ?c = map (\<lambda>p. (JStr (fst p), snd p)) (zs1 @ zs2) \<and>
             set ?c = (\<lambda>p. (JStr (fst p), snd p)) ` (set zs1 \<union> set zs2)"
  proof
    assume "distinct (map fst (zs1 @ zs2))"
    then have "?c = map (\<lambda>p. (JStr (fst p), snd p)) (zs1 @ zs2)"
      unfolding ce using fold_dict_set_distinct[of "zs1 @ zs2" "[]"] by (simp del: fold_append)
    then show "?c = map (\<lambda>p. (JStr (fst p), snd p)) (zs1 @ zs2) \<and>
               set ?c = (\<lambda>p. (JStr (fst p), snd p)) ` (set zs1 \<union> set zs2)"
      by (simp only: set_map set_append simp_thms)
  qed
  from z w m k d show ?thesis by (intro exI[of _ ?c]) (simp only: simp_thms)
qed

theorem two_pages_witness:
  "zones scripted
     (init [ok (listing [(''a.com'', JInt 1), (''b.com'', JInt 2)] True),
            ok (listing [(''c.com'', JInt 3)] False)]) =
   Some (Inr [JStr ''a.com'', JStr ''b.com'', JStr ''c.com''],
         \<lparr>self_zones = [(JStr ''a.com'', JInt 1), (JStr ''b.com'', JInt 2),
                        (JStr ''c.com'', JInt 3)],
          sent = [listing_request 1, listing_request 2], remote = []\<rparr>)"
proof -
  let ?zs1 = "[(''a.com'', JInt 1), (''b.com'', JInt 2)]"
  let ?zs2 = "[(''c.com'', JInt 3)]"
  let ?item = "\<lambda>z. JObj [(''Domain'', JStr (fst z)), (''Id'', snd z)]"
  let ?w = "init [ok (listing ?zs1 True), ok (listing ?zs2 False)]"
  have empty: "self_zones ?w = []"
    by (simp add: init_def)
  have a1: "scripted (remote ?w) (listing_request 1) =
              (Some (ok (listing ?zs1 True)), [ok (listing ?zs2 False)])"
    by (simp add: init_def)
  have a2: "scripted [ok (listing ?zs2 False)] (listing_request 2) =
              (Some (ok (listing ?zs2 False)), [])"
    by simp
  have s: "200 \<le> status_code (ok j)" "status_code (ok j) < 300" "body (ok j) = Some j" for j
    by (simp_all add: ok_def)
  have i1: "getitem (listing ?zs1 True) ''Items'' = Inr (JList (map ?item ?zs1))"
    and h1: "getitem (listing ?zs1 True) ''HasMoreItems'' = Inr (JBool True)"
    and i2: "getitem (listing ?zs2 False) ''Items'' = Inr (JList (map ?item ?zs2))"
    and h2: "getitem (listing ?zs2 False) ''HasMoreItems'' = Inr (JBool False)"
    by (simp_all add: listing_def)
  have l1: "list_all2 (\<lambda>z p. getitem z ''Domain'' = Inr (JStr (fst p)) \<and>
                              getitem z ''Id'' = Inr (snd p)) (map ?item ?zs1) ?zs1"
    and l2: "list_all2 (\<lambda>z p. getitem z ''Domain'' = Inr (JStr (fst p)) \<and>
                              getitem z ''Id'' = Inr (snd p)) (map ?item ?zs2) ?zs2"
    by simp_all
  note t = two_pages[OF empty a1 s(1) s(2) s(3) i1 l1 h1 a2 s(1) s(2) s(3) i2 l2 h2]
  from t show ?thesis
  proof (elim exE conjE)
    fix c
    assume z: "zones scripted ?w =
               Some (Inr (map fst c),
                     \<lparr>self_zones = c,
                      sent = sent ?w @ [listing_request 1, listing_request 2],
                      remote = []\<rparr>)"
      and d: "distinct (map fst (?zs1 @ ?zs2)) \<longrightarrow>
                c = map (\<lambda>p. (JStr (fst p), snd p)) (?zs1 @ ?zs2) \<and>
                set c = (\<lambda>p. (JStr (fst p), snd p)) ` (set ?zs1 \<union> set ?zs2)"
    have "distinct (map fst (?zs1 @ ?zs2))" by simp
    with d have "c = map (\<lambda>p. (JStr (fst p), snd p)) (?zs1 @ ?zs2)" by (rule mp[THEN conjunct1])
    then have "c = [(JStr ''a.com'', JInt 1), (JStr ''b.com'', JInt 2), (JStr ''c.com'', JInt 3)]"
      by simp
    with z show ?thesis by (simp add: init_def)
  qed
qed

end
